theory Spec2Isabelle
  imports Main
begin

section \<open>Values shared by the task actions\<close>

text \<open>
  The task actions of \<^verbatim>\<open>src/task-actions.ts\<close> talk to the outside through the file
  system, the console, external compiler processes, the recompilation cache and the
  integrated devnet. The model keeps every such effect as an event of a trace, in the order
  the code performs it. What the outside answers (a process result, the existence of a file,
  the content read from a file) is taken from an environment whose answers may depend on the
  whole trace so far, so nothing is assumed about it beyond being a function of the history.

  Creating, emptying and writing a file (\<^verbatim>\<open>mkdirSync\<close>, \<^verbatim>\<open>unlinkSync\<close>,
  \<^verbatim>\<open>openSync\<close>, \<^verbatim>\<open>writeFileSync\<close>) are recorded and taken to succeed.
  Whatever depends on a file being there can fail: \<^verbatim>\<open>copyFileSync\<close>, reads and
  parses. Every \<^verbatim>\<open>throw\<close> of the source is a branch returning \<open>Inl\<close>.
  Constructing a \<^verbatim>\<open>Recompiler\<close> or obtaining the \<^verbatim>\<open>ScarbWrapper\<close>
  instance only builds a handle and leaves no event.
\<close>

type_synonym path = string

datatype error =
    StarknetPluginError string
  | ScarbConfigValidationError string
  | UnknownNetworkError string string
  | ForeignError string

text \<open>\<open>ForeignError\<close> stands for any exception raised by library or user code.\<close>

record ProcessResult =
  statusCode :: int
  stdout :: string
  stderr :: string

record NetworkConfig =
  url :: string
  verificationUrl :: "string option"
  verifiedUrl :: "string option"

record TaskArguments =
  starknetNetwork :: "string option"
  paths :: "string list option"
  skipValidate :: "bool option"
  cairoPath :: "string option"
  cairo1BinDir :: "string option"
  replaceIds :: "bool option"
  allowedLibfuncsListName :: "string option"
  allowedLibfuncsListFile :: "string option"
  singleFile :: "bool option"
  addPythonicHints :: "bool option"
  accountContract :: "bool option"
  disableHintValidation :: "bool option"

text \<open>The parts of \<^verbatim>\<open>hre.config\<close> the actions read.\<close>

record HreConfig =
  paths_root :: path
  paths_starknetSources :: path
  paths_starknetArtifacts :: path
  paths_cairoPaths :: "path list option"
  starknet_cairo1BinDir :: "string option"
  starknet_network :: "string option"
  networks :: "string \<rightharpoonup> NetworkConfig"

subsection \<open>JSON values and \<^verbatim>\<open>JSON.stringify\<close>\<close>

text \<open>
  The values \<^verbatim>\<open>JSON.parse\<close> produces. A number is an IEEE double; the model keeps it
  opaque and takes from the environment the text \<^verbatim>\<open>JSON.stringify\<close> gives it:
  \<^verbatim>\<open>Number::toString\<close> of a finite number, \<^verbatim>\<open>null\<close> otherwise.
\<close>

typedecl jsnumber

datatype json =
    JNull
  | JBool bool
  | JNumber jsnumber
  | JString string
  | JArray "json list"
  | JObject "(string \<times> json) list"

subsection \<open>Arguments of the external tools\<close>

record CairoToSierraOptions =
  c2s_path :: path
  c2s_output :: path
  c2s_binDirPath :: "string option"
  c2s_replaceIds :: "bool option"
  c2s_allowedLibfuncsListName :: "string option"
  c2s_allowedLibfuncsListFile :: "string option"
  c2s_singleFile :: "bool option"

record SierraToCasmOptions =
  s2c_file :: path
  s2c_output :: path
  s2c_binDirPath :: "string option"
  s2c_addPythonicHints :: "bool option"
  s2c_allowedLibfuncsListName :: "string option"
  s2c_allowedLibfuncsListFile :: "string option"

record DeprecatedCompileOptions =
  dc_file :: path
  dc_output :: path
  dc_abi :: path
  dc_cairoPath :: string
  dc_accountContract :: "bool option"
  dc_disableHintValidation :: "bool option"

subsection \<open>Scarb manifests and build reports\<close>

text \<open>
  One \<^verbatim>\<open>[[target.starknet-contract]]\<close> table: \<open>tc_name\<close> is absent when the table
  has no \<^verbatim>\<open>name\<close>; \<open>tc_sierra\<close> and \<open>tc_casm\<close> hold the JavaScript truthiness of the
  two fields (an absent field is falsy).
\<close>

record TargetConfig =
  tc_name :: "string option"
  tc_sierra :: bool
  tc_casm :: bool

text \<open>
  The parsed manifest. \<open>target\<close> is \<open>None\<close> when the manifest has no
  \<^verbatim>\<open>target\<close> table at all, \<open>Some None\<close> when the table has no
  \<^verbatim>\<open>"starknet-contract"\<close> member, and \<open>Some (Some cs)\<close> otherwise. A manifest
  comes with its \<^verbatim>\<open>package.name\<close>; reading one that has no \<^verbatim>\<open>package\<close>
  table fails like any other unreadable manifest.
\<close>

record ScarbConfig =
  package_name :: string
  target :: "TargetConfig list option option"

record ContractEntry =
  ce_package_name :: string
  ce_contract_name :: string
  ce_artifacts_sierra :: "string option"
  ce_artifacts_casm :: "string option"

subsection \<open>Events\<close>

datatype event =
    ConsoleLog string
  | ConsoleError string
  | ConsoleErrorObject error
  | MkdirRecursive path
  | Unlink path
  | CreateEmpty path
  | WriteFile path string
  | CopyFile path path
  | CompileCairoToSierra CairoToSierraOptions ProcessResult
  | CompileSierraToCasm SierraToCasmOptions ProcessResult
  | DeprecatedCompile DeprecatedCompileOptions ProcessResult
  | ScarbBuild path path ProcessResult
  | UpdateCache TaskArguments path path path "string option"
  | SaveCache
  | HandleCache
  | SetProvider NetworkConfig
  | CreateIntegratedDevnet
  | DevnetStart
  | DevnetStop

text \<open>
  The mutable part of the runtime environment: the trace of effects so far and the two
  fields \<^verbatim>\<open>hre.starknet.network\<close> and \<^verbatim>\<open>hre.starknet.networkConfig\<close>.
\<close>

record world =
  trace :: "event list"
  hre_starknet_network :: "string option"
  hre_starknet_networkConfig :: "NetworkConfig option"

definition emit :: "event \<Rightarrow> world \<Rightarrow> world" where
  "emit e w = w\<lparr>trace := trace w @ [e]\<rparr>"

definition emits :: "event list \<Rightarrow> world \<Rightarrow> world" where
  "emits es w = w\<lparr>trace := trace w @ es\<rparr>"

subsection \<open>The environment\<close>

text \<open>
  Library functions, constants of \<^verbatim>\<open>constants.ts\<close>, helpers of \<^verbatim>\<open>utils.ts\<close>
  and the answers of the outside world. Every answer of the outside takes the trace so far.
\<close>

record env =
  ABI_SUFFIX :: string
  CAIRO1_SIERRA_SUFFIX :: string
  CAIRO1_ASSEMBLY_SUFFIX :: string
  DEFAULT_STARKNET_NETWORK :: string
  adaptPath :: "path \<Rightarrow> path \<Rightarrow> path"
  adaptLog :: "string \<Rightarrow> string"
  isStarknetDevnet :: "string option \<Rightarrow> bool"
  path_join :: "path \<Rightarrow> path \<Rightarrow> path"
  path_basename :: "path \<Rightarrow> string"
  path_basename_ext :: "path \<Rightarrow> string \<Rightarrow> string"
  path_extname :: "path \<Rightarrow> string"
  path_dirname :: "path \<Rightarrow> path"
  path_isAbsolute :: "path \<Rightarrow> bool"
  replaceRootRegex :: "path \<Rightarrow> path \<Rightarrow> path"
  existsSync :: "event list \<Rightarrow> path \<Rightarrow> bool"
  traverseFiles :: "event list \<Rightarrow> path \<Rightarrow> string \<Rightarrow> path list"
  runCairoToSierra :: "event list \<Rightarrow> CairoToSierraOptions \<Rightarrow> ProcessResult"
  runSierraToCasm :: "event list \<Rightarrow> SierraToCasmOptions \<Rightarrow> ProcessResult"
  runDeprecatedCompile :: "event list \<Rightarrow> DeprecatedCompileOptions \<Rightarrow> ProcessResult"
  runScarbBuild :: "event list \<Rightarrow> path \<Rightarrow> path \<Rightarrow> ProcessResult"
  numberToString :: "jsnumber \<Rightarrow> string"
  copyFileError :: "event list \<Rightarrow> path \<Rightarrow> path \<Rightarrow> error option"
  readJsonAbi :: "event list \<Rightarrow> path \<Rightarrow> error + json option"
  readScarbToml :: "event list \<Rightarrow> path \<Rightarrow> error + ScarbConfig"
  readArtifactContracts :: "event list \<Rightarrow> path \<Rightarrow> error + ContractEntry list"
  cacheHandled :: "event list \<Rightarrow> error option"
  devnetCreated :: "event list \<Rightarrow> error option"
  devnetStarted :: "event list \<Rightarrow> error option"

text \<open>
  \<open>readJsonAbi tr p\<close> is \<^verbatim>\<open>JSON.parse(fs.readFileSync(p, "utf-8")).abi\<close>: \<open>Inl\<close> when
  reading or parsing throws, \<open>Inr None\<close> when the parsed value has no \<^verbatim>\<open>abi\<close>.
  \<open>replaceRootRegex root s\<close> is \<^verbatim>\<open>s.replace(new RegExp("^" + root), "")\<close>.
  \<open>copyFileError tr src dst\<close> is the exception \<^verbatim>\<open>fs.copyFileSync(src, dst)\<close> throws
  at that point, if any (the source is missing, for one).
\<close>

text \<open>JavaScript truthiness of an optional string and of an optional flag.\<close>

definition truthyString :: "string option \<Rightarrow> string option" where
  "truthyString v = (case v of None \<Rightarrow> None | Some s \<Rightarrow> if s = [] then None else Some s)"

definition truthyFlag :: "bool option \<Rightarrow> bool" where
  "truthyFlag v = (case v of None \<Rightarrow> False | Some b \<Rightarrow> b)"

section \<open>Network resolution and the devnet supervisor\<close>

text \<open>
  Modelled from the spec: \<^verbatim>\<open>getNetwork\<close> of \<^verbatim>\<open>utils.ts\<close>, which is not part of
  the sources at hand. It looks the name up in the registry and fails with
  \<open>UnknownNetworkError\<close>, carrying the name and the origin that supplied it, when the
  registry has no such entry.
\<close>

definition getNetwork ::
  "string \<Rightarrow> (string \<rightharpoonup> NetworkConfig) \<Rightarrow> string \<Rightarrow> error + NetworkConfig" where
  "getNetwork networkName nets origin =
     (case nets networkName of
        None \<Rightarrow> Inl (UnknownNetworkError networkName origin)
      | Some network \<Rightarrow> Inr network)"

definition usingNetworkMsg :: "string \<Rightarrow> NetworkConfig \<Rightarrow> string" where
  "usingNetworkMsg networkName networkConfig =
     ''Using network '' @ networkName @ '' at '' @ url networkConfig"

definition setNetwork :: "string \<Rightarrow> NetworkConfig \<Rightarrow> world \<Rightarrow> world" where
  "setNetwork networkName networkConfig w =
     emit (ConsoleLog (usingNetworkMsg networkName networkConfig))
       (emit (SetProvider networkConfig)
         (w\<lparr>hre_starknet_network := Some networkName,
            hre_starknet_networkConfig := Some networkConfig\<rparr>))"

definition setRuntimeNetwork ::
  "env \<Rightarrow> TaskArguments \<Rightarrow> HreConfig \<Rightarrow> world \<Rightarrow> (error + unit) \<times> world" where
  "setRuntimeNetwork e args cfg w =
     (let (networkName, found) =
        (case truthyString (starknetNetwork args) of
           Some n \<Rightarrow> (n, getNetwork n (networks cfg) ''--starknet-network'')
         | None \<Rightarrow>
            (case truthyString (starknet_network cfg) of
               Some n \<Rightarrow> (n, getNetwork n (networks cfg) ''starknet.network in hardhat.config'')
             | None \<Rightarrow>
                 (DEFAULT_STARKNET_NETWORK e,
                  getNetwork (DEFAULT_STARKNET_NETWORK e) (networks cfg) ''default settings'')))
      in case found of
           Inl err \<Rightarrow> (Inl err, w)
         | Inr networkConfig \<Rightarrow> (Inr (), setNetwork networkName networkConfig w))"

text \<open>
  \<^verbatim>\<open>runWithDevnet\<close>: the unit of work \<open>fn\<close> is any computation on the world. The three
  statements after the guard run in sequence; an exception of one of them leaves the
  function at once.
\<close>

definition runWithDevnet ::
  "env \<Rightarrow> (world \<Rightarrow> (error + 'a) \<times> world) \<Rightarrow> world \<Rightarrow> (error + unit) \<times> world" where
  "runWithDevnet e fn w =
     (if \<not> isStarknetDevnet e (hre_starknet_network w) then
        (case fn w of
           (Inl err, w') \<Rightarrow> (Inl err, w')
         | (Inr _, w') \<Rightarrow> (Inr (), w'))
      else
        (case devnetCreated e (trace w) of
           Some err \<Rightarrow> (Inl err, w)
         | None \<Rightarrow>
            (let w1 = emit CreateIntegratedDevnet w in
             case devnetStarted e (trace w1) of
               Some err \<Rightarrow> (Inl err, emit DevnetStart w1)
             | None \<Rightarrow>
                (case fn (emit DevnetStart w1) of
                   (Inl err, w3) \<Rightarrow> (Inl err, w3)
                 | (Inr _, w3) \<Rightarrow> (Inr (), emit DevnetStop w3)))))"

definition handleCache :: "env \<Rightarrow> world \<Rightarrow> (error + unit) \<times> world" where
  "handleCache e w =
     (case cacheHandled e (trace w) of
        Some err \<Rightarrow> (Inl err, emit HandleCache w)
      | None \<Rightarrow> (Inr (), emit HandleCache w))"

definition starknetTestAction ::
  "env \<Rightarrow> TaskArguments \<Rightarrow> HreConfig \<Rightarrow> (TaskArguments \<Rightarrow> world \<Rightarrow> (error + 'a) \<times> world)
     \<Rightarrow> world \<Rightarrow> (error + unit) \<times> world" where
  "starknetTestAction e args cfg runSuper w =
     (case setRuntimeNetwork e args cfg w of
        (Inl err, w1) \<Rightarrow> (Inl err, w1)
      | (Inr _, w1) \<Rightarrow>
         (case handleCache e w1 of
            (Inl err, w2) \<Rightarrow> (Inl err, w2)
          | (Inr _, w2) \<Rightarrow> runWithDevnet e (runSuper args) w2))"

definition runFlagMsg :: string where
  "runFlagMsg =
     ''Using \"--starknet-network\" with \"hardhat run\" currently does not have effect.''
     @ [CHR 0x0A]
     @ ''Use the \"network\" property of the \"starknet\" object in your hardhat config file.''"

definition starknetRunAction ::
  "env \<Rightarrow> TaskArguments \<Rightarrow> HreConfig \<Rightarrow> (TaskArguments \<Rightarrow> world \<Rightarrow> (error + 'a) \<times> world)
     \<Rightarrow> world \<Rightarrow> (error + unit) \<times> world" where
  "starknetRunAction e args cfg runSuper w =
     (case truthyString (starknetNetwork args) of
        Some _ \<Rightarrow> (Inl (StarknetPluginError runFlagMsg), w)
      | None \<Rightarrow>
         (case setRuntimeNetwork e args cfg w of
            (Inl err, w1) \<Rightarrow> (Inl err, w1)
          | (Inr _, w1) \<Rightarrow>
             (case handleCache e w1 of
                (Inl err, w2) \<Rightarrow> (Inl err, w2)
              | (Inr _, w2) \<Rightarrow> runWithDevnet e (runSuper args) w2)))"

section \<open>Helpers of the compilation actions\<close>

definition sourceNotFoundMsg :: "path \<Rightarrow> string" where
  "sourceNotFoundMsg sourcePath = ''Source expected to be at '' @ sourcePath @ '', but not found.''"

definition checkSourceExists :: "env \<Rightarrow> event list \<Rightarrow> path \<Rightarrow> error + unit" where
  "checkSourceExists e tr sourcePath =
     (if \<not> existsSync e tr sourcePath then Inl (StarknetPluginError (sourceNotFoundMsg sourcePath))
      else Inr ())"

text \<open>
  \<^verbatim>\<open>processExecuted\<close>: forwards the captured output and returns 1 for a non-zero status
  code, 0 otherwise. The success message ends with the UTF-8 bytes of the check-mark sign.
\<close>

definition statusMsg :: "ProcessResult \<Rightarrow> string" where
  "statusMsg executed =
     (if statusCode executed \<noteq> 0 then ''Failed''
      else ''Succeeded '' @ [CHR 0xE2, CHR 0x9C, CHR 0x85])"

definition processExecuted :: "env \<Rightarrow> ProcessResult \<Rightarrow> bool \<Rightarrow> world \<Rightarrow> nat \<times> world" where
  "processExecuted e executed logStatus w =
     (let w1 = (if stdout executed \<noteq> [] then emit (ConsoleLog (adaptLog e (stdout executed))) w
                else w);
          w2 = (if stderr executed \<noteq> [] then emit (ConsoleError (adaptLog e (stderr executed))) w1
                else w1);
          w3 = (if logStatus
                then emit (ConsoleLog ([CHR 0x09] @ statusMsg executed @ [CHR 0x0A])) w2
                else w2)
      in (if statusCode executed \<noteq> 0 then 1 else 0, w3))"

definition initializeFile :: "env \<Rightarrow> path \<Rightarrow> world \<Rightarrow> world" where
  "initializeFile e filePath w =
     emit (CreateEmpty filePath)
       (if existsSync e (trace w) filePath then emit (Unlink filePath) w else w)"

definition getFileName :: "env \<Rightarrow> path \<Rightarrow> string" where
  "getFileName e filePath = path_basename_ext e filePath (path_extname e filePath)"

definition getCompilerBinDir :: "TaskArguments \<Rightarrow> HreConfig \<Rightarrow> string option" where
  "getCompilerBinDir args cfg =
     (case truthyString (cairo1BinDir args) of
        Some d \<Rightarrow> Some d
      | None \<Rightarrow> starknet_cairo1BinDir cfg)"

subsection \<open>Decimal numerals and \<^verbatim>\<open>JSON.stringify\<close>\<close>

definition digitChar :: "nat \<Rightarrow> char" where
  "digitChar d = ''0123456789'' ! (d mod 10)"

fun showNat :: "nat \<Rightarrow> string" where
  "showNat n = (if n < 10 then [digitChar n] else showNat (n div 10) @ [digitChar n])"

declare showNat.simps [simp del]

definition hexChar :: "nat \<Rightarrow> char" where
  "hexChar d = ''0123456789abcdef'' ! (d mod 16)"

text \<open>
  \<^verbatim>\<open>QuoteJSONString\<close> of ECMAScript on the bytes of a string: the seven characters with
  a short escape, the other control characters as \<^verbatim>\<open>\u00XX\<close>, everything else as it is.
\<close>

definition quoteJSONChar :: "char \<Rightarrow> string" where
  "quoteJSONChar c =
     (if c = CHR 0x08 then [CHR 0x5C, CHR ''b'']
      else if c = CHR 0x09 then [CHR 0x5C, CHR ''t'']
      else if c = CHR 0x0A then [CHR 0x5C, CHR ''n'']
      else if c = CHR 0x0C then [CHR 0x5C, CHR ''f'']
      else if c = CHR 0x0D then [CHR 0x5C, CHR ''r'']
      else if c = CHR 0x22 then [CHR 0x5C, CHR 0x22]
      else if c = CHR 0x5C then [CHR 0x5C, CHR 0x5C]
      else if (of_char c :: nat) < 32
        then [CHR 0x5C, CHR ''u'', CHR ''0'', CHR ''0'',
              hexChar (of_char c div 16), hexChar (of_char c)]
      else [c])"

definition quoteJSONString :: "string \<Rightarrow> string" where
  "quoteJSONString s = [CHR 0x22] @ concat (map quoteJSONChar s) @ [CHR 0x22]"

fun joinWith :: "string \<Rightarrow> string list \<Rightarrow> string" where
  "joinWith sep [] = []"
| "joinWith sep [x] = x"
| "joinWith sep (x # y # ys) = x @ sep @ joinWith sep (y # ys)"

text \<open>
  \<^verbatim>\<open>JSON.stringify(value)\<close> with no indentation argument, on the values
  \<^verbatim>\<open>JSON.parse\<close> produces. An object lists its members in its own enumeration order.
\<close>

fun JSON_stringify :: "env \<Rightarrow> json \<Rightarrow> string" where
  "JSON_stringify e JNull = ''null''"
| "JSON_stringify e (JBool b) = (if b then ''true'' else ''false'')"
| "JSON_stringify e (JNumber n) = numberToString e n"
| "JSON_stringify e (JString s) = quoteJSONString s"
| "JSON_stringify e (JArray xs) = ''['' @ joinWith '','' (map (JSON_stringify e) xs) @ '']''"
| "JSON_stringify e (JObject kvs) =
     ''{'' @ joinWith '',''
        (map (\<lambda>kv. quoteJSONString (fst kv) @ '':'' @ JSON_stringify e (snd kv)) kvs) @ ''}''"

text \<open>
  The text written to the ABI file: \<^verbatim>\<open>JSON.stringify(outputJson.abi) + "\n"\<close>. For a
  missing \<^verbatim>\<open>abi\<close> property \<^verbatim>\<open>JSON.stringify\<close> returns \<^verbatim>\<open>undefined\<close>, which
  the concatenation turns into the word.
\<close>

definition abiFileContent :: "env \<Rightarrow> json option \<Rightarrow> string" where
  "abiFileContent e abi =
     (case abi of None \<Rightarrow> ''undefined'' | Some j \<Rightarrow> JSON_stringify e j) @ [CHR 0x0A]"

text \<open>
  What a pretty-printer writes, for comparison with the code: the rendering of
  \<^verbatim>\<open>JSON.stringify(value, null, 2)\<close>, each member of a non-empty array or object on a
  line of its own, indented by two spaces per nesting level.
\<close>

definition indentOf :: "nat \<Rightarrow> string" where
  "indentOf n = replicate (2 * n) CHR '' ''"

fun JSON_stringify_pretty :: "env \<Rightarrow> nat \<Rightarrow> json \<Rightarrow> string" where
  "JSON_stringify_pretty e n JNull = ''null''"
| "JSON_stringify_pretty e n (JBool b) = (if b then ''true'' else ''false'')"
| "JSON_stringify_pretty e n (JNumber i) = numberToString e i"
| "JSON_stringify_pretty e n (JString s) = quoteJSONString s"
| "JSON_stringify_pretty e n (JArray xs) =
     (if xs = [] then ''[]''
      else ''['' @ [CHR 0x0A] @ indentOf (Suc n)
           @ joinWith ('','' @ [CHR 0x0A] @ indentOf (Suc n))
               (map (JSON_stringify_pretty e (Suc n)) xs)
           @ [CHR 0x0A] @ indentOf n @ '']'')"
| "JSON_stringify_pretty e n (JObject kvs) =
     (if kvs = [] then ''{}''
      else ''{'' @ [CHR 0x0A] @ indentOf (Suc n)
           @ joinWith ('','' @ [CHR 0x0A] @ indentOf (Suc n))
               (map (\<lambda>kv. quoteJSONString (fst kv) @ '': ''
                             @ JSON_stringify_pretty e (Suc n) (snd kv)) kvs)
           @ [CHR 0x0A] @ indentOf n @ ''}'')"

section \<open>The two-stage pipeline\<close>

definition failedCompilationMsg :: "nat \<Rightarrow> string" where
  "failedCompilationMsg statusSum =
     ''Failed compilation of '' @ showNat statusSum @ '' contract''
       @ (if statusSum = 1 then [] else ''s'') @ ''.''"

text \<open>
  The body of the inner loop of \<^verbatim>\<open>starknetCompileCairo1Action\<close> for one file. It
  takes the running \<^verbatim>\<open>statusCode\<close> of the action (here \<open>statusSum\<close>, the record field
  having the name) and returns the new one; \<^verbatim>\<open>continue\<close>
  is the early return after a failed first stage.
\<close>

definition compileCairo1File ::
  "env \<Rightarrow> TaskArguments \<Rightarrow> HreConfig \<Rightarrow> string option \<Rightarrow> path \<Rightarrow> nat \<Rightarrow> world
     \<Rightarrow> (error + nat) \<times> world" where
  "compileCairo1File e args cfg binDirPath file statusSum w =
     (let w1 = emit (ConsoleLog (''Compiling '' @ file)) w;
          dirSuffix = replaceRootRegex e (paths_root cfg) file;
          fileName = getFileName e dirSuffix;
          dirPath = path_join e (paths_starknetArtifacts cfg) dirSuffix;
          outputPath = path_join e dirPath (fileName @ CAIRO1_SIERRA_SUFFIX e);
          w2 = initializeFile e outputPath (emit (MkdirRecursive dirPath) w1);
          sierraOptions = \<lparr>c2s_path = file, c2s_output = outputPath,
             c2s_binDirPath = binDirPath, c2s_replaceIds = replaceIds args,
             c2s_allowedLibfuncsListName = allowedLibfuncsListName args,
             c2s_allowedLibfuncsListFile = allowedLibfuncsListFile args,
             c2s_singleFile = singleFile args\<rparr>;
          executed = runCairoToSierra e (trace w2) sierraOptions;
          (failed, w3) =
             processExecuted e executed True (emit (CompileCairoToSierra sierraOptions executed) w2)
      in if statusCode executed \<noteq> 0 then (Inr (statusSum + failed), w3)
         else
           (let abiOutput = path_join e dirPath (fileName @ ABI_SUFFIX e);
                w4 = initializeFile e abiOutput w3
            in case readJsonAbi e (trace w4) outputPath of
                 Inl err \<Rightarrow> (Inl err, w4)
               | Inr abi \<Rightarrow>
                  (let w5 = emit (WriteFile abiOutput (abiFileContent e abi)) w4;
                       casmOutput = path_join e dirPath (fileName @ CAIRO1_ASSEMBLY_SUFFIX e);
                       w6 = initializeFile e casmOutput w5;
                       casmOptions = \<lparr>s2c_file = outputPath, s2c_output = casmOutput,
                          s2c_binDirPath = binDirPath,
                          s2c_addPythonicHints = addPythonicHints args,
                          s2c_allowedLibfuncsListName = allowedLibfuncsListName args,
                          s2c_allowedLibfuncsListFile = allowedLibfuncsListFile args\<rparr>;
                       executed2 = runSierraToCasm e (trace w6) casmOptions;
                       (failed2, w7) =
                          processExecuted e executed2 True
                            (emit (CompileSierraToCasm casmOptions executed2) w6)
                   in (Inr (statusSum + failed + failed2),
                       emit (UpdateCache args file outputPath abiOutput None) w7))))"

fun compileCairo1Files ::
  "env \<Rightarrow> TaskArguments \<Rightarrow> HreConfig \<Rightarrow> string option \<Rightarrow> path list \<Rightarrow> nat \<Rightarrow> world
     \<Rightarrow> (error + nat) \<times> world" where
  "compileCairo1Files e args cfg binDirPath [] statusSum w = (Inr statusSum, w)"
| "compileCairo1Files e args cfg binDirPath (file # files) statusSum w =
     (case compileCairo1File e args cfg binDirPath file statusSum w of
        (Inl err, w') \<Rightarrow> (Inl err, w')
      | (Inr statusSum', w') \<Rightarrow> compileCairo1Files e args cfg binDirPath files statusSum' w')"

text \<open>The outer loop over the sources paths; the cache is saved after each of them.\<close>

fun compileCairo1Paths ::
  "env \<Rightarrow> TaskArguments \<Rightarrow> HreConfig \<Rightarrow> string option \<Rightarrow> path list \<Rightarrow> nat \<Rightarrow> world
     \<Rightarrow> (error + nat) \<times> world" where
  "compileCairo1Paths e args cfg binDirPath [] statusSum w = (Inr statusSum, w)"
| "compileCairo1Paths e args cfg binDirPath (sourcesPath # rest) statusSum w =
     (let sourcesPath' = adaptPath e (paths_root cfg) sourcesPath
      in case checkSourceExists e (trace w) sourcesPath' of
           Inl err \<Rightarrow> (Inl err, w)
         | Inr _ \<Rightarrow>
            (case compileCairo1Files e args cfg binDirPath
                    (traverseFiles e (trace w) sourcesPath' ''*.cairo'') statusSum w of
               (Inl err, w') \<Rightarrow> (Inl err, w')
             | (Inr statusSum', w') \<Rightarrow>
                 compileCairo1Paths e args cfg binDirPath rest statusSum' (emit SaveCache w')))"

definition sourcesPathsOf :: "TaskArguments \<Rightarrow> HreConfig \<Rightarrow> path list" where
  "sourcesPathsOf args cfg =
     (case paths args of Some ps \<Rightarrow> ps | None \<Rightarrow> [paths_starknetSources cfg])"

definition starknetCompileCairo1Action ::
  "env \<Rightarrow> TaskArguments \<Rightarrow> HreConfig \<Rightarrow> world \<Rightarrow> (error + unit) \<times> world" where
  "starknetCompileCairo1Action e args cfg w =
     (case compileCairo1Paths e args cfg (getCompilerBinDir args cfg)
             (sourcesPathsOf args cfg) 0 w of
        (Inl err, w') \<Rightarrow> (Inl err, w')
      | (Inr statusSum, w') \<Rightarrow>
          (if statusSum \<noteq> 0 then (Inl (StarknetPluginError (failedCompilationMsg statusSum)), w')
           else (Inr (), w')))"

section \<open>The legacy pipeline\<close>

fun splitOn :: "char \<Rightarrow> string \<Rightarrow> string list" where
  "splitOn c [] = [[]]"
| "splitOn c (x # xs) =
     (if x = c then [] # splitOn c xs
      else (case splitOn c xs of [] \<Rightarrow> [[x]] | y # ys \<Rightarrow> (x # y) # ys))"

definition cairoPathOf :: "env \<Rightarrow> TaskArguments \<Rightarrow> HreConfig \<Rightarrow> string" where
  "cairoPathOf e args cfg =
     (let cairoPaths =
            [paths_starknetSources cfg, paths_root cfg]
            @ (case truthyString (cairoPath args) of Some s \<Rightarrow> splitOn CHR '':'' s | None \<Rightarrow> [])
            @ (case paths_cairoPaths cfg of Some ps \<Rightarrow> ps | None \<Rightarrow> [])
      in joinWith '':''
           (map (\<lambda>p. if \<not> path_isAbsolute e p then adaptPath e (paths_root cfg) p else p)
                cairoPaths))"

text \<open>The body of the inner loop of \<^verbatim>\<open>starknetDeprecatedCompileAction\<close>.\<close>

definition deprecatedCompileFile ::
  "env \<Rightarrow> TaskArguments \<Rightarrow> HreConfig \<Rightarrow> string \<Rightarrow> path \<Rightarrow> nat \<Rightarrow> world \<Rightarrow> nat \<times> world" where
  "deprecatedCompileFile e args cfg cairoPath' file statusSum w =
     (let w1 = emit (ConsoleLog (''Compiling '' @ file)) w;
          dirSuffix = replaceRootRegex e (paths_root cfg) file;
          fileName = getFileName e dirSuffix;
          dirPath = path_join e (paths_starknetArtifacts cfg) dirSuffix;
          outputPath = path_join e dirPath (fileName @ ''.json'');
          abiPath = path_join e dirPath (fileName @ ABI_SUFFIX e);
          w2 = initializeFile e abiPath
                 (initializeFile e outputPath (emit (MkdirRecursive dirPath) w1));
          options = \<lparr>dc_file = file, dc_output = outputPath, dc_abi = abiPath,
             dc_cairoPath = cairoPath', dc_accountContract = accountContract args,
             dc_disableHintValidation = disableHintValidation args\<rparr>;
          executed = runDeprecatedCompile e (trace w2) options;
          w3 = emit (UpdateCache args file outputPath abiPath (Some cairoPath'))
                 (emit (DeprecatedCompile options executed) w2);
          (failed, w4) = processExecuted e executed True w3
      in (statusSum + failed, w4))"

fun deprecatedCompileFiles ::
  "env \<Rightarrow> TaskArguments \<Rightarrow> HreConfig \<Rightarrow> string \<Rightarrow> path list \<Rightarrow> nat \<Rightarrow> world \<Rightarrow> nat \<times> world" where
  "deprecatedCompileFiles e args cfg cairoPath' [] statusSum w = (statusSum, w)"
| "deprecatedCompileFiles e args cfg cairoPath' (file # files) statusSum w =
     (case deprecatedCompileFile e args cfg cairoPath' file statusSum w of
        (statusSum', w') \<Rightarrow> deprecatedCompileFiles e args cfg cairoPath' files statusSum' w')"

fun deprecatedCompilePaths ::
  "env \<Rightarrow> TaskArguments \<Rightarrow> HreConfig \<Rightarrow> string \<Rightarrow> path list \<Rightarrow> nat \<Rightarrow> world
     \<Rightarrow> (error + nat) \<times> world" where
  "deprecatedCompilePaths e args cfg cairoPath' [] statusSum w = (Inr statusSum, w)"
| "deprecatedCompilePaths e args cfg cairoPath' (sourcesPath # rest) statusSum w =
     (let sourcesPath' = adaptPath e (paths_root cfg) sourcesPath
      in case checkSourceExists e (trace w) sourcesPath' of
           Inl err \<Rightarrow> (Inl err, w)
         | Inr _ \<Rightarrow>
            (case deprecatedCompileFiles e args cfg cairoPath'
                    (traverseFiles e (trace w) sourcesPath' ''*.cairo'') statusSum w of
               (statusSum', w') \<Rightarrow>
                 deprecatedCompilePaths e args cfg cairoPath' rest statusSum' (emit SaveCache w')))"

definition starknetDeprecatedCompileAction ::
  "env \<Rightarrow> TaskArguments \<Rightarrow> HreConfig \<Rightarrow> world \<Rightarrow> (error + unit) \<times> world" where
  "starknetDeprecatedCompileAction e args cfg w =
     (case deprecatedCompilePaths e args cfg (cairoPathOf e args cfg)
             (sourcesPathsOf args cfg) 0 w of
        (Inl err, w') \<Rightarrow> (Inl err, w')
      | (Inr statusSum, w') \<Rightarrow>
          (if statusSum \<noteq> 0 then (Inl (StarknetPluginError (failedCompilationMsg statusSum)), w')
           else (Inr (), w')))"

section \<open>The manifest-based build\<close>

definition validationMsg :: "path \<Rightarrow> string \<Rightarrow> string" where
  "validationMsg tomlPath message =
     ''Invalid config file '' @ tomlPath @ '': '' @ message @ [CHR 0x0A]
       @ ''To skip this validation, use the --skip-validate flag in the CLI''"

definition nameMismatchMsg :: string where
  "nameMismatchMsg =
     ''Property 'name' of [[target.starknet-contract]] must be left out or equal the [package] name''"

definition sierraCasmMsg :: string where
  "sierraCasmMsg =
     ''To allow later loading of this project's contracts, ''
     @ ''your TOML file must set 'sierra' and 'casm' to `true` under [[target.starknet-contract]]''"

text \<open>
  The candidates of \<^verbatim>\<open>loadScarbTomlFromPath\<close>: the target configurations with no
  (or an empty) \<^verbatim>\<open>name\<close>, or with the name of the package.
\<close>

definition configCandidates :: "string \<Rightarrow> TargetConfig list \<Rightarrow> TargetConfig list" where
  "configCandidates packageName contractTargetConfigs =
     filter (\<lambda>c. truthyString (tc_name c) = None \<or> tc_name c = Some packageName)
       contractTargetConfigs"

text \<open>
  \<^verbatim>\<open>loadScarbTomlFromPath\<close>. With validation on, the expression
  \<^verbatim>\<open>config?.target["starknet-contract"]\<close> throws a \<^verbatim>\<open>TypeError\<close> when the
  manifest has no \<^verbatim>\<open>target\<close> table.
\<close>

definition loadScarbTomlFromPath ::
  "env \<Rightarrow> event list \<Rightarrow> path \<Rightarrow> bool \<Rightarrow> error + ScarbConfig" where
  "loadScarbTomlFromPath e tr tomlPath validate =
     (case readScarbToml e tr tomlPath of
        Inl err \<Rightarrow> Inl err
      | Inr config \<Rightarrow>
         (if validate then
            (case target config of
               None \<Rightarrow> Inl (ForeignError ''TypeError: Cannot read properties of undefined'')
             | Some starknetContract \<Rightarrow>
                (case configCandidates (package_name config)
                        (case starknetContract of None \<Rightarrow> [] | Some cs \<Rightarrow> cs) of
                   [] \<Rightarrow> Inl (ScarbConfigValidationError (validationMsg tomlPath nameMismatchMsg))
                 | contractTargetConfig # _ \<Rightarrow>
                     (if \<not> tc_sierra contractTargetConfig \<or> \<not> tc_casm contractTargetConfig
                      then Inl (ScarbConfigValidationError (validationMsg tomlPath sierraCasmMsg))
                      else Inr config)))
          else Inr config))"

definition buildReportMissingMsg :: "string \<Rightarrow> path \<Rightarrow> string" where
  "buildReportMissingMsg packageName mainPackageArtifactPath =
     ''Error in building '' @ packageName @ '', could not find '' @ mainPackageArtifactPath"

definition mainPackageArtifactPathOf :: "env \<Rightarrow> path \<Rightarrow> string \<Rightarrow> path" where
  "mainPackageArtifactPathOf e scarbArtifactDirPath packageName =
     path_join e scarbArtifactDirPath (packageName @ ''.starknet_artifacts.json'')"

text \<open>
  \<^verbatim>\<open>loadScarbMainArtifact\<close>, returning the \<^verbatim>\<open>contracts\<close> of the parsed build
  report, the one member the caller reads.
\<close>

definition loadScarbMainArtifact ::
  "env \<Rightarrow> event list \<Rightarrow> path \<Rightarrow> string \<Rightarrow> error + ContractEntry list" where
  "loadScarbMainArtifact e tr scarbArtifactDirPath packageName =
     (let mainPackageArtifactPath = mainPackageArtifactPathOf e scarbArtifactDirPath packageName
      in if \<not> existsSync e tr mainPackageArtifactPath
         then Inl (StarknetPluginError (buildReportMissingMsg packageName mainPackageArtifactPath))
         else readArtifactContracts e tr mainPackageArtifactPath)"

definition noProjectsMsg :: "string \<Rightarrow> string" where
  "noProjectsMsg configFileName =
     ''No projects to build. Could not find directories containing '' @ configFileName"

fun collectPackageConfigPaths ::
  "env \<Rightarrow> event list \<Rightarrow> path \<Rightarrow> string \<Rightarrow> path list \<Rightarrow> path list \<Rightarrow> error + path list" where
  "collectPackageConfigPaths e tr root configFileName [] packageConfigPaths =
     Inr packageConfigPaths"
| "collectPackageConfigPaths e tr root configFileName (traversablePath # rest) packageConfigPaths =
     (let traversablePath' = adaptPath e root traversablePath
      in case checkSourceExists e tr traversablePath' of
           Inl err \<Rightarrow> Inl err
         | Inr _ \<Rightarrow>
            collectPackageConfigPaths e tr root configFileName rest
              (packageConfigPaths
               @ filter (\<lambda>p. path_basename e p = configFileName)
                   (traverseFiles e tr traversablePath' configFileName)))"

definition findPackageConfigPaths ::
  "env \<Rightarrow> event list \<Rightarrow> path list \<Rightarrow> path \<Rightarrow> error + path list" where
  "findPackageConfigPaths e tr traversablePaths root =
     (case collectPackageConfigPaths e tr root ''Scarb.toml'' traversablePaths [] of
        Inl err \<Rightarrow> Inl err
      | Inr packageConfigPaths \<Rightarrow>
          (if packageConfigPaths = [] then Inl (StarknetPluginError (noProjectsMsg ''Scarb.toml''))
           else Inr packageConfigPaths))"

text \<open>The body of the loop over the contract entries of a build report.\<close>

definition copyContractEntry ::
  "env \<Rightarrow> path \<Rightarrow> path \<Rightarrow> ContractEntry \<Rightarrow> world \<Rightarrow> (error + unit) \<times> world" where
  "copyContractEntry e artifactDirPath scarbArtifactDirPath contractEntry w =
     (let fileName = ce_package_name contractEntry @ ''_'' @ ce_contract_name contractEntry;
          ourArtifactDirPath = path_join e artifactDirPath (fileName @ ''.cairo'');
          w1 = emit (MkdirRecursive ourArtifactDirPath) w
      in case
           (case truthyString (ce_artifacts_sierra contractEntry) of
              None \<Rightarrow> (Inr (), w1)
            | Some sierra \<Rightarrow>
               (let scarbSierraPath = path_join e scarbArtifactDirPath sierra;
                    ourSierraPath =
                      path_join e ourArtifactDirPath (fileName @ CAIRO1_SIERRA_SUFFIX e)
                in case copyFileError e (trace w1) scarbSierraPath ourSierraPath of
                     Some err \<Rightarrow> (Inl err, w1)
                   | None \<Rightarrow>
                      (let w2 = emit (CopyFile scarbSierraPath ourSierraPath) w1;
                           abiOutput = path_join e ourArtifactDirPath (fileName @ ABI_SUFFIX e);
                           w3 = initializeFile e abiOutput w2
                       in case readJsonAbi e (trace w3) scarbSierraPath of
                            Inl err \<Rightarrow> (Inl err, w3)
                          | Inr abi \<Rightarrow>
                              (Inr (), emit (WriteFile abiOutput (abiFileContent e abi)) w3))))
         of
           (Inl err, w4) \<Rightarrow> (Inl err, w4)
         | (Inr _, w4) \<Rightarrow>
            (case truthyString (ce_artifacts_casm contractEntry) of
               None \<Rightarrow> (Inr (), w4)
             | Some casm \<Rightarrow>
                (let scarbCasmPath = path_join e scarbArtifactDirPath casm;
                     ourCasmPath =
                       path_join e ourArtifactDirPath (fileName @ CAIRO1_ASSEMBLY_SUFFIX e)
                 in case copyFileError e (trace w4) scarbCasmPath ourCasmPath of
                      Some err \<Rightarrow> (Inl err, w4)
                    | None \<Rightarrow> (Inr (), emit (CopyFile scarbCasmPath ourCasmPath) w4))))"

fun copyContractEntries ::
  "env \<Rightarrow> path \<Rightarrow> path \<Rightarrow> ContractEntry list \<Rightarrow> world \<Rightarrow> (error + unit) \<times> world" where
  "copyContractEntries e artifactDirPath scarbArtifactDirPath [] w = (Inr (), w)"
| "copyContractEntries e artifactDirPath scarbArtifactDirPath (contractEntry # rest) w =
     (case copyContractEntry e artifactDirPath scarbArtifactDirPath contractEntry w of
        (Inl err, w') \<Rightarrow> (Inl err, w')
      | (Inr _, w') \<Rightarrow> copyContractEntries e artifactDirPath scarbArtifactDirPath rest w')"

definition buildingMsg :: "string \<Rightarrow> path \<Rightarrow> string" where
  "buildingMsg packageName packageDir =
     ''Building package '' @ packageName @ '' from '' @ packageDir"

definition artifactDirPathOf :: "env \<Rightarrow> HreConfig \<Rightarrow> path \<Rightarrow> path" where
  "artifactDirPathOf e cfg packageConfigPath =
     path_join e (paths_starknetArtifacts cfg)
       (replaceRootRegex e (paths_root cfg) (path_dirname e packageConfigPath))"

text \<open>
  The build of one package, from the \<^verbatim>\<open>console.log\<close> announcing it to
  \<^verbatim>\<open>processExecuted\<close>: the result of the build tool, what \<^verbatim>\<open>processExecuted\<close>
  returned for it, and the world after it.
\<close>

definition scarbBuildStep ::
  "env \<Rightarrow> HreConfig \<Rightarrow> path \<Rightarrow> ScarbConfig \<Rightarrow> world \<Rightarrow> ProcessResult \<times> nat \<times> world" where
  "scarbBuildStep e cfg packageConfigPath packageConfig w =
     (let w1 = emit (ConsoleLog (buildingMsg (package_name packageConfig)
                                   (path_dirname e packageConfigPath))) w;
          artifactDirPath = artifactDirPathOf e cfg packageConfigPath;
          executed = runScarbBuild e (trace w1) packageConfigPath artifactDirPath
      in case processExecuted e executed True
                (emit (ScarbBuild packageConfigPath artifactDirPath executed) w1) of
           (failed, w2) \<Rightarrow> (executed, failed, w2))"

text \<open>
  The body of the loop of \<^verbatim>\<open>starknetBuildAction\<close> for one manifest. Only the loading
  of the manifest sits in a \<^verbatim>\<open>try\<close>; an exception of a later statement leaves the
  loop and the action.
\<close>

definition buildPackage ::
  "env \<Rightarrow> TaskArguments \<Rightarrow> HreConfig \<Rightarrow> path \<Rightarrow> nat \<Rightarrow> world \<Rightarrow> (error + nat) \<times> world" where
  "buildPackage e args cfg packageConfigPath statusSum w =
     (case loadScarbTomlFromPath e (trace w) packageConfigPath
             (\<not> truthyFlag (skipValidate args)) of
        Inl err \<Rightarrow> (Inr (statusSum + 1), emit (ConsoleErrorObject err) w)
      | Inr packageConfig \<Rightarrow>
         (case scarbBuildStep e cfg packageConfigPath packageConfig w of
            (executed, failed, w2) \<Rightarrow>
              (if statusCode executed \<noteq> 0 then (Inr (statusSum + failed), w2)
               else
                 (let artifactDirPath = artifactDirPathOf e cfg packageConfigPath;
                      scarbArtifactDirPath = path_join e artifactDirPath ''dev''
                  in case loadScarbMainArtifact e (trace w2) scarbArtifactDirPath
                            (package_name packageConfig) of
                       Inl err \<Rightarrow> (Inl err, w2)
                     | Inr contracts \<Rightarrow>
                        (case copyContractEntries e artifactDirPath scarbArtifactDirPath
                                contracts w2 of
                           (Inl err, w3) \<Rightarrow> (Inl err, w3)
                         | (Inr _, w3) \<Rightarrow> (Inr (statusSum + failed), w3))))))"

fun buildPackages ::
  "env \<Rightarrow> TaskArguments \<Rightarrow> HreConfig \<Rightarrow> path list \<Rightarrow> nat \<Rightarrow> world \<Rightarrow> (error + nat) \<times> world" where
  "buildPackages e args cfg [] statusSum w = (Inr statusSum, w)"
| "buildPackages e args cfg (packageConfigPath # rest) statusSum w =
     (case buildPackage e args cfg packageConfigPath statusSum w of
        (Inl err, w') \<Rightarrow> (Inl err, w')
      | (Inr statusSum', w') \<Rightarrow> buildPackages e args cfg rest statusSum' w')"

definition failedBuildingMsg :: "nat \<Rightarrow> string" where
  "failedBuildingMsg statusSum =
     ''Failed building of '' @ showNat statusSum @ '' project''
       @ (if statusSum = 1 then [] else ''s'') @ ''.''"

definition starknetBuildAction ::
  "env \<Rightarrow> TaskArguments \<Rightarrow> HreConfig \<Rightarrow> world \<Rightarrow> (error + unit) \<times> world" where
  "starknetBuildAction e args cfg w =
     (case findPackageConfigPaths e (trace w) (sourcesPathsOf args cfg) (paths_root cfg) of
        Inl err \<Rightarrow> (Inl err, w)
      | Inr packageConfigPaths \<Rightarrow>
         (case buildPackages e args cfg packageConfigPaths 0 w of
            (Inl err, w') \<Rightarrow> (Inl err, w')
          | (Inr statusSum, w') \<Rightarrow>
              (if statusSum \<noteq> 0 then (Inl (StarknetPluginError (failedBuildingMsg statusSum)), w')
               else (Inr (), w'))))"

section \<open>Observations on traces\<close>

text \<open>
  An observation picks from every event the items of interest; the observation of a trace
  lists them in the order of the events.
\<close>

definition observe :: "(event \<Rightarrow> 'a list) \<Rightarrow> event list \<Rightarrow> 'a list" where
  "observe f tr = concat (map f tr)"

text \<open>
  The invocations of the external tools, each with its input and whether the reported
  status code was zero.
\<close>

fun sierraAttempt :: "event \<Rightarrow> (path \<times> bool) list" where
  "sierraAttempt (CompileCairoToSierra opts r) = [(c2s_path opts, statusCode r = 0)]"
| "sierraAttempt _ = []"

fun casmAttempt :: "event \<Rightarrow> (path \<times> bool) list" where
  "casmAttempt (CompileSierraToCasm opts r) = [(s2c_file opts, statusCode r = 0)]"
| "casmAttempt _ = []"

fun legacyAttempt :: "event \<Rightarrow> (path \<times> bool) list" where
  "legacyAttempt (DeprecatedCompile opts r) = [(dc_file opts, statusCode r = 0)]"
| "legacyAttempt _ = []"

fun buildAttempt :: "event \<Rightarrow> (path \<times> bool) list" where
  "buildAttempt (ScarbBuild packageConfigPath artifactDirPath r) =
     [(packageConfigPath, statusCode r = 0)]"
| "buildAttempt _ = []"

text \<open>
  The first-stage invocations by the output they were asked to write. The output of a first
  stage is fresh in a history when the latest first-stage invocation of that history wrote
  to it and reported success.
\<close>

fun sierraOutput :: "event \<Rightarrow> (path \<times> bool) list" where
  "sierraOutput (CompileCairoToSierra opts r) = [(c2s_output opts, statusCode r = 0)]"
| "sierraOutput _ = []"

text \<open>The source files for which \<^verbatim>\<open>updateCache\<close> was called.\<close>

fun cacheUpdate :: "event \<Rightarrow> path list" where
  "cacheUpdate (UpdateCache args file output abi cairoPath') = [file]"
| "cacheUpdate _ = []"

text \<open>The files an event creates, removes or writes.\<close>

fun fileWrite :: "event \<Rightarrow> path list" where
  "fileWrite (Unlink p) = [p]"
| "fileWrite (CreateEmpty p) = [p]"
| "fileWrite (WriteFile p content) = [p]"
| "fileWrite (CopyFile src dst) = [dst]"
| "fileWrite _ = []"

fun contentWrite :: "event \<Rightarrow> (path \<times> string) list" where
  "contentWrite (WriteFile p content) = [(p, content)]"
| "contentWrite _ = []"

text \<open>The files an event copies, as source and destination.\<close>

fun fileCopy :: "event \<Rightarrow> (path \<times> path) list" where
  "fileCopy (CopyFile src dst) = [(src, dst)]"
| "fileCopy _ = []"

fun devnetStop :: "event \<Rightarrow> unit list" where
  "devnetStop DevnetStop = [()]"
| "devnetStop _ = []"

definition freshSierra :: "event list \<Rightarrow> path \<Rightarrow> bool" where
  "freshSierra tr p =
     (observe sierraOutput tr \<noteq> [] \<and> last (observe sierraOutput tr) = (p, True))"

definition failedCount :: "(path \<times> bool) list \<Rightarrow> nat" where
  "failedCount attempts = length (filter (\<lambda>a. \<not> snd a) attempts)"

definition succeeded :: "(path \<times> bool) list \<Rightarrow> path list" where
  "succeeded attempts = map fst (filter snd attempts)"

text \<open>The artifact paths the two-stage pipeline derives for a source file.\<close>

definition cairo1DirPath :: "env \<Rightarrow> HreConfig \<Rightarrow> path \<Rightarrow> path" where
  "cairo1DirPath e cfg file =
     path_join e (paths_starknetArtifacts cfg) (replaceRootRegex e (paths_root cfg) file)"

definition cairo1FileName :: "env \<Rightarrow> HreConfig \<Rightarrow> path \<Rightarrow> string" where
  "cairo1FileName e cfg file = getFileName e (replaceRootRegex e (paths_root cfg) file)"

definition cairo1OutputPath :: "env \<Rightarrow> HreConfig \<Rightarrow> path \<Rightarrow> path" where
  "cairo1OutputPath e cfg file =
     path_join e (cairo1DirPath e cfg file) (cairo1FileName e cfg file @ CAIRO1_SIERRA_SUFFIX e)"

definition cairo1AbiOutput :: "env \<Rightarrow> HreConfig \<Rightarrow> path \<Rightarrow> path" where
  "cairo1AbiOutput e cfg file =
     path_join e (cairo1DirPath e cfg file) (cairo1FileName e cfg file @ ABI_SUFFIX e)"

text \<open>
  The Sierra path and the ABI path the build action derives for a contract entry of a build
  report.
\<close>

definition scarbSierraOutput :: "env \<Rightarrow> path \<Rightarrow> ContractEntry \<Rightarrow> path" where
  "scarbSierraOutput e artifactDirPath contractEntry =
     path_join e
       (path_join e artifactDirPath
          ((ce_package_name contractEntry @ ''_'' @ ce_contract_name contractEntry) @ ''.cairo''))
       ((ce_package_name contractEntry @ ''_'' @ ce_contract_name contractEntry)
          @ CAIRO1_SIERRA_SUFFIX e)"

definition scarbAbiOutput :: "env \<Rightarrow> path \<Rightarrow> ContractEntry \<Rightarrow> path" where
  "scarbAbiOutput e artifactDirPath contractEntry =
     path_join e
       (path_join e artifactDirPath
          ((ce_package_name contractEntry @ ''_'' @ ce_contract_name contractEntry) @ ''.cairo''))
       ((ce_package_name contractEntry @ ''_'' @ ce_contract_name contractEntry) @ ABI_SUFFIX e)"


definition cairo1CasmOutput :: "env \<Rightarrow> HreConfig \<Rightarrow> path \<Rightarrow> path" where
  "cairo1CasmOutput e cfg file =
     path_join e (cairo1DirPath e cfg file) (cairo1FileName e cfg file @ CAIRO1_ASSEMBLY_SUFFIX e)"

text \<open>The events of \<^verbatim>\<open>initializeFile\<close> and of \<^verbatim>\<open>processExecuted\<close>, as lists.\<close>

definition initializeEvents :: "env \<Rightarrow> event list \<Rightarrow> path \<Rightarrow> event list" where
  "initializeEvents e tr filePath =
     (if existsSync e tr filePath then [Unlink filePath] else []) @ [CreateEmpty filePath]"

definition processEvents :: "env \<Rightarrow> ProcessResult \<Rightarrow> bool \<Rightarrow> event list" where
  "processEvents e executed logStatus =
     (if stdout executed \<noteq> [] then [ConsoleLog (adaptLog e (stdout executed))] else [])
     @ (if stderr executed \<noteq> [] then [ConsoleError (adaptLog e (stderr executed))] else [])
     @ (if logStatus then [ConsoleLog ([CHR 0x09] @ statusMsg executed @ [CHR 0x0A])] else [])"

section \<open>A sample project\<close>

text \<open>
  A project rooted at \<^verbatim>\<open>/p\<close> with three contracts, of which \<^verbatim>\<open>bad.cairo\<close> does
  not compile, and two Scarb packages: package \<^verbatim>\<open>a\<close> builds but leaves no build
  report, package \<^verbatim>\<open>b\<close> names a target that is not the package, and package
  \<^verbatim>\<open>c\<close> is a library with no target table. The output of a first stage cannot be
  parsed when the compiler has just failed on it.
\<close>

definition sampleBasename :: "path \<Rightarrow> string" where
  "sampleBasename p = last (splitOn CHR ''/'' p)"

definition sampleExtname :: "path \<Rightarrow> string" where
  "sampleExtname p =
     (if CHR ''.'' \<in> set (sampleBasename p)
      then CHR ''.'' # last (splitOn CHR ''.'' (sampleBasename p)) else [])"

definition sampleBasenameExt :: "path \<Rightarrow> string \<Rightarrow> string" where
  "sampleBasenameExt p ext =
     (let b = sampleBasename p
      in if length ext < length b \<and> drop (length b - length ext) b = ext
         then take (length b - length ext) b else b)"

definition sampleOk :: "bool \<Rightarrow> ProcessResult" where
  "sampleOk ok = \<lparr>statusCode = (if ok then 0 else 1), stdout = [], stderr = []\<rparr>"

definition sampleAbi :: json where
  "sampleAbi =
     JArray [JObject [(''type'', JString ''function''), (''name'', JString ''get''),
                      (''inputs'', JArray [])]]"

definition sampleManifest :: "path \<Rightarrow> error + ScarbConfig" where
  "sampleManifest p =
     (if p = ''/p/contracts/a/Scarb.toml'' then
        Inr \<lparr>package_name = ''a'',
             target = Some (Some [\<lparr>tc_name = None, tc_sierra = True, tc_casm = True\<rparr>])\<rparr>
      else if p = ''/p/contracts/b/Scarb.toml'' then
        Inr \<lparr>package_name = ''b'',
             target = Some (Some [\<lparr>tc_name = Some ''other'', tc_sierra = True, tc_casm = True\<rparr>])\<rparr>
      else if p = ''/p/contracts/c/Scarb.toml'' then
        Inr \<lparr>package_name = ''c'', target = None\<rparr>
      else Inl (ForeignError ''ENOENT''))"

definition sampleRead :: "event list \<Rightarrow> path \<Rightarrow> error + json option" where
  "sampleRead tr p =
     (if observe sierraOutput tr \<noteq> [] \<and> last (observe sierraOutput tr) = (p, False)
      then Inl (ForeignError ''SyntaxError: Unexpected end of JSON input'')
      else Inr (Some sampleAbi))"

definition sampleEnv :: env where
  "sampleEnv =
     \<lparr>ABI_SUFFIX = ''_abi.json'',
      CAIRO1_SIERRA_SUFFIX = ''.json'',
      CAIRO1_ASSEMBLY_SUFFIX = ''.casm'',
      DEFAULT_STARKNET_NETWORK = ''alphaGoerli'',
      adaptPath = (\<lambda>root p. p),
      adaptLog = (\<lambda>s. s),
      isStarknetDevnet = (\<lambda>n. n = Some ''integrated-devnet''),
      path_join = (\<lambda>a b. if take 1 b = ''/'' then a @ b else a @ ''/'' @ b),
      path_basename = sampleBasename,
      path_basename_ext = sampleBasenameExt,
      path_extname = sampleExtname,
      path_dirname = (\<lambda>p. joinWith ''/'' (butlast (splitOn CHR ''/'' p))),
      path_isAbsolute = (\<lambda>p. take 1 p = ''/''),
      replaceRootRegex = (\<lambda>root s. if take (length root) s = root then drop (length root) s else s),
      existsSync = (\<lambda>tr p. p \<noteq> ''/p/starknet-artifacts/contracts/a/dev/a.starknet_artifacts.json''),
      traverseFiles = (\<lambda>tr p pattern.
         if pattern = ''*.cairo''
         then [''/p/contracts/good.cairo'', ''/p/contracts/bad.cairo'', ''/p/contracts/fine.cairo'']
         else [''/p/contracts/a/Scarb.toml'', ''/p/contracts/b/Scarb.toml'']),
      runCairoToSierra = (\<lambda>tr opts. sampleOk (c2s_path opts \<noteq> ''/p/contracts/bad.cairo'')),
      runSierraToCasm = (\<lambda>tr opts. sampleOk True),
      runDeprecatedCompile = (\<lambda>tr opts. sampleOk (dc_file opts \<noteq> ''/p/contracts/bad.cairo'')),
      runScarbBuild = (\<lambda>tr packageConfigPath artifactDirPath. sampleOk True),
      numberToString = (\<lambda>n. ''0''),
      copyFileError = (\<lambda>tr src dst. None),
      readJsonAbi = sampleRead,
      readScarbToml = (\<lambda>tr p. sampleManifest p),
      readArtifactContracts = (\<lambda>tr p. Inr []),
      cacheHandled = (\<lambda>tr. None),
      devnetCreated = (\<lambda>tr. None),
      devnetStarted = (\<lambda>tr. None)\<rparr>"

definition sampleEntry :: ContractEntry where
  "sampleEntry =
     \<lparr>ce_package_name = ''a'', ce_contract_name = ''Counter'',
      ce_artifacts_sierra = Some ''a_Counter.contract_class.json'',
      ce_artifacts_casm = Some ''a_Counter.compiled_contract_class.json''\<rparr>"

definition sampleArgs :: TaskArguments where
  "sampleArgs =
     \<lparr>starknetNetwork = None, paths = None, skipValidate = None, cairoPath = None,
      cairo1BinDir = None, replaceIds = None, allowedLibfuncsListName = None,
      allowedLibfuncsListFile = None, singleFile = None, addPythonicHints = None,
      accountContract = None, disableHintValidation = None\<rparr>"

definition sampleDevnet :: NetworkConfig where
  "sampleDevnet = \<lparr>url = ''http://127.0.0.1:5050'', verificationUrl = None, verifiedUrl = None\<rparr>"

definition sampleTestnet :: NetworkConfig where
  "sampleTestnet = \<lparr>url = ''https://alpha4.starknet.io'', verificationUrl = None, verifiedUrl = None\<rparr>"

definition sampleConfig :: HreConfig where
  "sampleConfig =
     \<lparr>paths_root = ''/p'',
      paths_starknetSources = ''/p/contracts'',
      paths_starknetArtifacts = ''/p/starknet-artifacts'',
      paths_cairoPaths = None,
      starknet_cairo1BinDir = None,
      starknet_network = Some ''integrated-devnet'',
      networks = map_of [(''integrated-devnet'', sampleDevnet), (''alphaGoerli'', sampleTestnet)]\<rparr>"

definition sampleWorld :: world where
  "sampleWorld = \<lparr>trace = [], hre_starknet_network = None, hre_starknet_networkConfig = None\<rparr>"

definition devnetWorld :: world where
  "devnetWorld =
     \<lparr>trace = [], hre_starknet_network = Some ''integrated-devnet'',
      hre_starknet_networkConfig = Some sampleDevnet\<rparr>"

text \<open>Two units of work: a test run that passes, and one that throws.\<close>

definition passingWork :: "world \<Rightarrow> (error + unit) \<times> world" where
  "passingWork w = (Inr (), emit (ConsoleLog ''1 passing'') w)"

definition throwingWork :: "world \<Rightarrow> (error + unit) \<times> world" where
  "throwingWork w = (Inl (ForeignError ''AssertionError''), emit (ConsoleLog ''1 failing'') w)"

section \<open>Basic facts about traces\<close>

lemma trace_emit [simp]: "trace (emit ev w) = trace w @ [ev]"
  by (simp add: emit_def)

lemma network_emit [simp]: "hre_starknet_network (emit ev w) = hre_starknet_network w"
  by (simp add: emit_def)

text \<open>The sample environment, field by field.\<close>

lemma sampleEnv_sel [simp]:
  "ABI_SUFFIX sampleEnv = ''_abi.json''"
  "CAIRO1_SIERRA_SUFFIX sampleEnv = ''.json''"
  "CAIRO1_ASSEMBLY_SUFFIX sampleEnv = ''.casm''"
  "DEFAULT_STARKNET_NETWORK sampleEnv = ''alphaGoerli''"
  "adaptPath sampleEnv root p = p"
  "adaptLog sampleEnv s = s"
  "isStarknetDevnet sampleEnv n = (n = Some ''integrated-devnet'')"
  "path_join sampleEnv a b = (if take 1 b = ''/'' then a @ b else a @ ''/'' @ b)"
  "path_basename sampleEnv = sampleBasename"
  "path_basename_ext sampleEnv = sampleBasenameExt"
  "path_extname sampleEnv = sampleExtname"
  "path_dirname sampleEnv p = joinWith ''/'' (butlast (splitOn CHR ''/'' p))"
  "path_isAbsolute sampleEnv p = (take 1 p = ''/'')"
  "replaceRootRegex sampleEnv root s =
     (if take (length root) s = root then drop (length root) s else s)"
  "existsSync sampleEnv tr p =
     (p \<noteq> ''/p/starknet-artifacts/contracts/a/dev/a.starknet_artifacts.json'')"
  "traverseFiles sampleEnv tr p pattern =
     (if pattern = ''*.cairo''
      then [''/p/contracts/good.cairo'', ''/p/contracts/bad.cairo'', ''/p/contracts/fine.cairo'']
      else [''/p/contracts/a/Scarb.toml'', ''/p/contracts/b/Scarb.toml''])"
  "runCairoToSierra sampleEnv tr c2s = sampleOk (c2s_path c2s \<noteq> ''/p/contracts/bad.cairo'')"
  "runSierraToCasm sampleEnv tr s2c = sampleOk True"
  "runDeprecatedCompile sampleEnv tr dc = sampleOk (dc_file dc \<noteq> ''/p/contracts/bad.cairo'')"
  "runScarbBuild sampleEnv tr packageConfigPath artifactDirPath = sampleOk True"
  "numberToString sampleEnv num = ''0''"
  "copyFileError sampleEnv tr src dst = None"
  "readJsonAbi sampleEnv = sampleRead"
  "readScarbToml sampleEnv tr p = sampleManifest p"
  "readArtifactContracts sampleEnv tr p = Inr []"
  "cacheHandled sampleEnv tr = None"
  "devnetCreated sampleEnv tr = None"
  "devnetStarted sampleEnv tr = None"
  by (simp_all add: sampleEnv_def)

section \<open>Network resolution\<close>

text \<open>
  C7. \<^verbatim>\<open>setRuntimeNetwork\<close> picks the network name by precedence: a CLI-level name
  (a non-empty \<^verbatim>\<open>args.starknetNetwork\<close>, the only kind JavaScript's truthiness test
  lets through) is used whatever the configuration says; without it a configured
  \<^verbatim>\<open>starknet.network\<close> is used; without both the built-in default. At each level a name
  with no entry in the registry fails with an error carrying the name and the origin that
  supplied it (the flag, the config field, or the default settings), and the world is left
  as it was. A registered name and its registry entry become \<^verbatim>\<open>hre.starknet.network\<close>
  and \<^verbatim>\<open>hre.starknet.networkConfig\<close>, the entry is handed to
  \<^verbatim>\<open>starknetJs.setProvider\<close>, and the choice is logged with the URL of the entry.
\<close>

theorem network_precedence:
  "(truthyString (starknetNetwork args) = Some n \<longrightarrow>
      setRuntimeNetwork e args cfg w =
        (case networks cfg n of
           None \<Rightarrow> (Inl (UnknownNetworkError n ''--starknet-network''), w)
         | Some c \<Rightarrow>
             (Inr (),
              w\<lparr>trace := trace w @ [SetProvider c,
                                      ConsoleLog (''Using network '' @ n @ '' at '' @ url c)],
                hre_starknet_network := Some n,
                hre_starknet_networkConfig := Some c\<rparr>)))
   \<and> (truthyString (starknetNetwork args) = None \<and> truthyString (starknet_network cfg) = Some n \<longrightarrow>
      setRuntimeNetwork e args cfg w =
        (case networks cfg n of
           None \<Rightarrow> (Inl (UnknownNetworkError n ''starknet.network in hardhat.config''), w)
         | Some c \<Rightarrow>
             (Inr (),
              w\<lparr>trace := trace w @ [SetProvider c,
                                      ConsoleLog (''Using network '' @ n @ '' at '' @ url c)],
                hre_starknet_network := Some n,
                hre_starknet_networkConfig := Some c\<rparr>)))
   \<and> (truthyString (starknetNetwork args) = None \<and> truthyString (starknet_network cfg) = None \<longrightarrow>
      setRuntimeNetwork e args cfg w =
        (case networks cfg (DEFAULT_STARKNET_NETWORK e) of
           None \<Rightarrow> (Inl (UnknownNetworkError (DEFAULT_STARKNET_NETWORK e) ''default settings''), w)
         | Some c \<Rightarrow>
             (Inr (),
              w\<lparr>trace := trace w @ [SetProvider c,
                                      ConsoleLog (''Using network '' @ DEFAULT_STARKNET_NETWORK e
                                                  @ '' at '' @ url c)],
                hre_starknet_network := Some (DEFAULT_STARKNET_NETWORK e),
                hre_starknet_networkConfig := Some c\<rparr>)))"
  by (simp add: setRuntimeNetwork_def getNetwork_def setNetwork_def usingNetworkMsg_def emit_def
        split: option.splits)

theorem network_precedence_witness:
  "truthyString (starknetNetwork (sampleArgs\<lparr>starknetNetwork := Some ''alphaGoerli''\<rparr>)) = Some ''alphaGoerli''
   \<and> setRuntimeNetwork sampleEnv (sampleArgs\<lparr>starknetNetwork := Some ''alphaGoerli''\<rparr>) sampleConfig sampleWorld
       = (Inr (),
          \<lparr>trace = [SetProvider sampleTestnet,
                     ConsoleLog ''Using network alphaGoerli at https://alpha4.starknet.io''],
           hre_starknet_network = Some ''alphaGoerli'',
           hre_starknet_networkConfig = Some sampleTestnet\<rparr>)
   \<and> truthyString (starknetNetwork (sampleArgs\<lparr>starknetNetwork := Some ''nowhere''\<rparr>)) = Some ''nowhere''
   \<and> setRuntimeNetwork sampleEnv (sampleArgs\<lparr>starknetNetwork := Some ''nowhere''\<rparr>) sampleConfig sampleWorld
       = (Inl (UnknownNetworkError ''nowhere'' ''--starknet-network''), sampleWorld)
   \<and> truthyString (starknetNetwork sampleArgs) = None
   \<and> truthyString (starknet_network sampleConfig) = Some ''integrated-devnet''
   \<and> setRuntimeNetwork sampleEnv sampleArgs sampleConfig sampleWorld
       = (Inr (),
          \<lparr>trace = [SetProvider sampleDevnet,
                     ConsoleLog ''Using network integrated-devnet at http://127.0.0.1:5050''],
           hre_starknet_network = Some ''integrated-devnet'',
           hre_starknet_networkConfig = Some sampleDevnet\<rparr>)
   \<and> truthyString (starknet_network (sampleConfig\<lparr>starknet_network := None\<rparr>)) = None
   \<and> setRuntimeNetwork sampleEnv sampleArgs (sampleConfig\<lparr>starknet_network := None\<rparr>) sampleWorld
       = (Inr (),
          \<lparr>trace = [SetProvider sampleTestnet,
                     ConsoleLog ''Using network alphaGoerli at https://alpha4.starknet.io''],
           hre_starknet_network = Some ''alphaGoerli'',
           hre_starknet_networkConfig = Some sampleTestnet\<rparr>)"
  using network_precedence [where args = "sampleArgs\<lparr>starknetNetwork := Some ''alphaGoerli''\<rparr>"
          and n = "''alphaGoerli''" and e = sampleEnv and cfg = sampleConfig and w = sampleWorld]
        network_precedence [where args = "sampleArgs\<lparr>starknetNetwork := Some ''nowhere''\<rparr>"
          and n = "''nowhere''" and e = sampleEnv and cfg = sampleConfig and w = sampleWorld]
        network_precedence [where args = sampleArgs and n = "''integrated-devnet''"
          and e = sampleEnv and cfg = sampleConfig and w = sampleWorld]
        network_precedence [where args = sampleArgs and n = "''x''" and e = sampleEnv
          and cfg = "sampleConfig\<lparr>starknet_network := None\<rparr>" and w = sampleWorld]
  by (simp add: truthyString_def sampleArgs_def sampleConfig_def sampleWorld_def
        sampleTestnet_def sampleDevnet_def)

section \<open>The devnet supervisor\<close>

text \<open>
  C8. When the resolved network is not the integrated devnet, \<^verbatim>\<open>runWithDevnet\<close> is a
  passthrough: it runs the unit of work directly, hands on its exception if it throws, and
  leaves exactly the trace of the unit of work, so no devnet is created, started or stopped.
\<close>

theorem passthrough_without_devnet:
  "\<not> isStarknetDevnet e (hre_starknet_network w) \<Longrightarrow>
     runWithDevnet e fn w =
       (case fn w of (Inl err, w') \<Rightarrow> (Inl err, w') | (Inr v, w') \<Rightarrow> (Inr (), w'))
     \<and> trace (snd (runWithDevnet e fn w)) = trace (snd (fn w))"
  by (simp add: runWithDevnet_def split: prod.splits sum.splits)

theorem passthrough_without_devnet_witness:
  "\<not> isStarknetDevnet sampleEnv (hre_starknet_network sampleWorld)
   \<and> runWithDevnet sampleEnv passingWork sampleWorld =
       (Inr (), emit (ConsoleLog ''1 passing'') sampleWorld)
   \<and> trace (snd (runWithDevnet sampleEnv passingWork sampleWorld)) = [ConsoleLog ''1 passing'']"
  using passthrough_without_devnet [of sampleEnv sampleWorld passingWork]
  by (simp add: sampleEnv_def sampleWorld_def passingWork_def)

text \<open>
  C1, as the code has it. On the integrated devnet, once the devnet has been created and
  started, \<^verbatim>\<open>runWithDevnet\<close> runs the unit of work; when that returns normally,
  \<^verbatim>\<open>stop()\<close> is called exactly once, after it, and the action returns. When the unit
  of work throws, its exception reaches the caller with the world the unit of work left:
  \<^verbatim>\<open>runWithDevnet\<close> has no \<^verbatim>\<open>finally\<close> and does not call \<^verbatim>\<open>stop()\<close>.
\<close>

theorem stop_after_normal_return:
  assumes "isStarknetDevnet e (hre_starknet_network w)"
      and "devnetCreated e (trace w) = None"
      and "devnetStarted e (trace (emit CreateIntegratedDevnet w)) = None"
      and "fn (emit DevnetStart (emit CreateIntegratedDevnet w)) = (r, w3)"
  shows "runWithDevnet e fn w =
           (case r of Inl err \<Rightarrow> (Inl err, w3) | Inr v \<Rightarrow> (Inr (), emit DevnetStop w3))
         \<and> observe devnetStop (trace (snd (runWithDevnet e fn w))) =
             observe devnetStop (trace w3) @ (case r of Inl err \<Rightarrow> [] | Inr v \<Rightarrow> [()])"
  using assms by (simp add: runWithDevnet_def Let_def observe_def split: sum.splits)

theorem stop_after_normal_return_witness:
  "isStarknetDevnet sampleEnv (hre_starknet_network devnetWorld)
   \<and> devnetCreated sampleEnv (trace devnetWorld) = None
   \<and> devnetStarted sampleEnv (trace (emit CreateIntegratedDevnet devnetWorld)) = None
   \<and> runWithDevnet sampleEnv passingWork devnetWorld =
       (Inr (), emit DevnetStop (emit (ConsoleLog ''1 passing'')
                  (emit DevnetStart (emit CreateIntegratedDevnet devnetWorld))))
   \<and> observe devnetStop (trace (snd (runWithDevnet sampleEnv passingWork devnetWorld))) = [()]"
  using stop_after_normal_return [of sampleEnv devnetWorld passingWork "Inr ()"
          "emit (ConsoleLog ''1 passing'') (emit DevnetStart (emit CreateIntegratedDevnet devnetWorld))"]
  by (simp add: sampleEnv_def devnetWorld_def passingWork_def observe_def)

text \<open>
  The claim as stated fails: on the integrated devnet a unit of work that throws leaves the
  devnet started and never stopped.
\<close>

theorem stop_skipped_counterexample:
  "isStarknetDevnet sampleEnv (hre_starknet_network devnetWorld)
   \<and> fst (runWithDevnet sampleEnv throwingWork devnetWorld) = Inl (ForeignError ''AssertionError'')
   \<and> trace (snd (runWithDevnet sampleEnv throwingWork devnetWorld)) =
       [CreateIntegratedDevnet, DevnetStart, ConsoleLog ''1 failing'']
   \<and> observe devnetStop (trace (snd (runWithDevnet sampleEnv throwingWork devnetWorld))) = []"
  by (simp add: runWithDevnet_def sampleEnv_def devnetWorld_def throwingWork_def Let_def observe_def)

section \<open>The run action\<close>

text \<open>
  C10. When \<^verbatim>\<open>args.starknetNetwork\<close> is supplied (a non-empty string),
  \<^verbatim>\<open>starknetRunAction\<close> throws the error saying that the flag has no effect with
  \<^verbatim>\<open>hardhat run\<close>, and the world is exactly the one it was called in: the network has
  not been resolved, the cache has not been handled and the unit of work has not run.
\<close>

theorem run_rejects_network_flag:
  "truthyString (starknetNetwork args) = Some n \<Longrightarrow>
     starknetRunAction e args cfg runSuper w = (Inl (StarknetPluginError runFlagMsg), w)"
  by (simp add: starknetRunAction_def)

theorem run_rejects_network_flag_witness:
  "truthyString (starknetNetwork (sampleArgs\<lparr>starknetNetwork := Some ''alphaGoerli''\<rparr>))
     = Some ''alphaGoerli''
   \<and> starknetRunAction sampleEnv (sampleArgs\<lparr>starknetNetwork := Some ''alphaGoerli''\<rparr>)
        sampleConfig (\<lambda>a. passingWork) sampleWorld
       = (Inl (StarknetPluginError runFlagMsg), sampleWorld)"
  using run_rejects_network_flag [of "sampleArgs\<lparr>starknetNetwork := Some ''alphaGoerli''\<rparr>"
          "''alphaGoerli''" sampleEnv sampleConfig "\<lambda>a. passingWork" sampleWorld]
  by (simp add: truthyString_def sampleArgs_def)

section \<open>The manifest-based build\<close>

text \<open>
  A target configuration applies to a package when it has no name, an empty name, or the
  name of the package. With validation on, a manifest that has a \<^verbatim>\<open>target\<close> table and
  among its target configurations none that applies, or whose first applicable one does not
  set both \<^verbatim>\<open>sierra\<close> and \<^verbatim>\<open>casm\<close>, makes \<^verbatim>\<open>loadScarbTomlFromPath\<close> throw a
  \<open>ScarbConfigValidationError\<close>. The loop of the build action prints it, counts one
  failure and goes on with the remaining manifests from a world to which only that print
  was added: the build tool has not been invoked for the rejected manifest.
\<close>

lemma configCandidates_none:
  "\<forall>c \<in> set cs. \<not> (tc_name c = None \<or> tc_name c = Some [] \<or> tc_name c = Some packageName)
     \<Longrightarrow> configCandidates packageName cs = []"
  by (auto simp add: configCandidates_def truthyString_def filter_empty_conv split: option.splits)

lemma configCandidates_first:
  assumes "cs = pre @ c # post"
      and "\<forall>d \<in> set pre. \<not> (tc_name d = None \<or> tc_name d = Some [] \<or> tc_name d = Some packageName)"
      and "tc_name c = None \<or> tc_name c = Some [] \<or> tc_name c = Some packageName"
  shows "configCandidates packageName cs = c # configCandidates packageName post"
proof -
  have applies: "truthyString (tc_name c) = None \<or> tc_name c = Some packageName"
    using assms(3) by (auto simp add: truthyString_def)
  have before: "configCandidates packageName pre = []"
    using assms(2) by (rule configCandidates_none)
  show ?thesis
    using applies before unfolding assms(1) configCandidates_def by simp
qed

lemma validated_manifest_rejected_before_build:
  assumes "\<not> truthyFlag (skipValidate args)"
      and "readScarbToml e (trace w) packageConfigPath = Inr config"
      and "target config = Some starknetContract"
      and "cs = (case starknetContract of None \<Rightarrow> [] | Some cs' \<Rightarrow> cs')"
      and "(\<forall>c \<in> set cs. \<not> (tc_name c = None \<or> tc_name c = Some []
                                 \<or> tc_name c = Some (package_name config)))
           \<or> (\<exists>pre c post. cs = pre @ c # post
                 \<and> (\<forall>d \<in> set pre. \<not> (tc_name d = None \<or> tc_name d = Some []
                                           \<or> tc_name d = Some (package_name config)))
                 \<and> (tc_name c = None \<or> tc_name c = Some []
                      \<or> tc_name c = Some (package_name config))
                 \<and> \<not> (tc_sierra c \<and> tc_casm c))"
  shows "\<exists>message.
           loadScarbTomlFromPath e (trace w) packageConfigPath True
             = Inl (ScarbConfigValidationError (validationMsg packageConfigPath message))
           \<and> buildPackage e args cfg packageConfigPath statusSum w =
               (Inr (statusSum + 1),
                emit (ConsoleErrorObject
                        (ScarbConfigValidationError (validationMsg packageConfigPath message))) w)
           \<and> buildPackages e args cfg (packageConfigPath # rest) statusSum w =
               buildPackages e args cfg rest (statusSum + 1)
                 (emit (ConsoleErrorObject
                          (ScarbConfigValidationError (validationMsg packageConfigPath message))) w)"
proof -
  from assms(5) show ?thesis
  proof
    assume "\<forall>c \<in> set cs. \<not> (tc_name c = None \<or> tc_name c = Some []
                                 \<or> tc_name c = Some (package_name config))"
    then have "configCandidates (package_name config) cs = []"
      by (rule configCandidates_none)
    with assms(1-4) show ?thesis
      by (intro exI [of _ nameMismatchMsg])
         (simp add: loadScarbTomlFromPath_def buildPackage_def)
  next
    assume "\<exists>pre c post. cs = pre @ c # post
                 \<and> (\<forall>d \<in> set pre. \<not> (tc_name d = None \<or> tc_name d = Some []
                                           \<or> tc_name d = Some (package_name config)))
                 \<and> (tc_name c = None \<or> tc_name c = Some []
                      \<or> tc_name c = Some (package_name config))
                 \<and> \<not> (tc_sierra c \<and> tc_casm c)"
    then obtain pre c post where split: "cs = pre @ c # post"
      and before: "\<forall>d \<in> set pre. \<not> (tc_name d = None \<or> tc_name d = Some []
                                           \<or> tc_name d = Some (package_name config))"
      and applies: "tc_name c = None \<or> tc_name c = Some []
                      \<or> tc_name c = Some (package_name config)"
      and lacking: "\<not> (tc_sierra c \<and> tc_casm c)"
      by blast
    have "configCandidates (package_name config) cs
            = c # configCandidates (package_name config) post"
      using split before applies by (rule configCandidates_first)
    with assms(1-4) lacking show ?thesis
      by (intro exI [of _ sierraCasmMsg])
         (auto simp add: loadScarbTomlFromPath_def buildPackage_def)
  qed
qed

text \<open>
  C5. The claim covers a manifest with no \<^verbatim>\<open>target\<close> table: its list of target
  configurations holds no entry at all, so the manifest is to be rejected with a validation
  error. The code means to read a missing list as empty (\<^verbatim>\<open>config?.target[...] || []\<close>),
  but the optional chaining guards \<^verbatim>\<open>config\<close> and not \<^verbatim>\<open>target\<close>: with validation
  on, \<^verbatim>\<open>loadScarbTomlFromPath\<close> throws a \<^verbatim>\<open>TypeError\<close> for such a manifest and never
  a \<open>ScarbConfigValidationError\<close>. The loop of the build action still prints the error,
  counts one failure and goes on with the remaining manifests without invoking the build
  tool.
\<close>

theorem manifest_without_target_raises_type_error:
  assumes "\<not> truthyFlag (skipValidate args)"
      and "readScarbToml e (trace w) packageConfigPath = Inr config"
      and "target config = None"
  shows "loadScarbTomlFromPath e (trace w) packageConfigPath (\<not> truthyFlag (skipValidate args))
           = Inl (ForeignError ''TypeError: Cannot read properties of undefined'')
         \<and> (\<forall>message.
               loadScarbTomlFromPath e (trace w) packageConfigPath
                   (\<not> truthyFlag (skipValidate args))
                 \<noteq> Inl (ScarbConfigValidationError message))
         \<and> buildPackages e args cfg (packageConfigPath # rest) statusSum w =
             buildPackages e args cfg rest (statusSum + 1)
               (emit (ConsoleErrorObject
                        (ForeignError ''TypeError: Cannot read properties of undefined'')) w)"
  using assms by (simp add: loadScarbTomlFromPath_def buildPackage_def)

theorem manifest_without_target_raises_type_error_witness:
  "\<not> truthyFlag (skipValidate sampleArgs)
   \<and> readScarbToml sampleEnv (trace sampleWorld) ''/p/contracts/c/Scarb.toml''
       = Inr \<lparr>package_name = ''c'', target = None\<rparr>
   \<and> loadScarbTomlFromPath sampleEnv (trace sampleWorld) ''/p/contracts/c/Scarb.toml'' True
       = Inl (ForeignError ''TypeError: Cannot read properties of undefined'')
   \<and> buildPackages sampleEnv sampleArgs sampleConfig [''/p/contracts/c/Scarb.toml''] 0 sampleWorld
       = (Inr 1,
          emit (ConsoleErrorObject
                  (ForeignError ''TypeError: Cannot read properties of undefined'')) sampleWorld)"
  using manifest_without_target_raises_type_error [of sampleArgs sampleEnv sampleWorld
          "''/p/contracts/c/Scarb.toml''" "\<lparr>package_name = ''c'', target = None\<rparr>"
          sampleConfig "[]" 0]
  by (simp add: sampleArgs_def sampleManifest_def truthyFlag_def)

text \<open>
  C3, as the code has it. When the manifest has been loaded, the build tool has reported
  success and the build report \<^verbatim>\<open><packageName>.starknet_artifacts.json\<close> is not in the
  \<^verbatim>\<open>dev\<close> directory of the artifacts, \<^verbatim>\<open>loadScarbMainArtifact\<close> throws an error
  naming the package and the expected path. The call is outside the \<^verbatim>\<open>try\<close> of the
  loop, so the error ends the loop and the action there: whatever manifests remain in the
  batch are not processed.
\<close>

theorem missing_build_report_aborts_batch:
  assumes "loadScarbTomlFromPath e (trace w) packageConfigPath (\<not> truthyFlag (skipValidate args))
             = Inr config"
      and "scarbBuildStep e cfg packageConfigPath config w = (executed, failed, w2)"
      and "statusCode executed = 0"
      and "\<not> existsSync e (trace w2)
              (mainPackageArtifactPathOf e
                 (path_join e (artifactDirPathOf e cfg packageConfigPath) ''dev'')
                 (package_name config))"
  shows "buildPackages e args cfg (packageConfigPath # rest) statusSum w =
           (Inl (StarknetPluginError
                   (buildReportMissingMsg (package_name config)
                      (mainPackageArtifactPathOf e
                         (path_join e (artifactDirPathOf e cfg packageConfigPath) ''dev'')
                         (package_name config)))),
            w2)"
  using assms
  by (simp add: buildPackage_def loadScarbMainArtifact_def Let_def)

theorem missing_build_report_aborts_batch_witness:
  "loadScarbTomlFromPath sampleEnv (trace sampleWorld) ''/p/contracts/a/Scarb.toml''
      (\<not> truthyFlag (skipValidate sampleArgs))
     = Inr \<lparr>package_name = ''a'',
            target = Some (Some [\<lparr>tc_name = None, tc_sierra = True, tc_casm = True\<rparr>])\<rparr>
   \<and> statusCode (fst (scarbBuildStep sampleEnv sampleConfig ''/p/contracts/a/Scarb.toml''
        \<lparr>package_name = ''a'',
            target = Some (Some [\<lparr>tc_name = None, tc_sierra = True, tc_casm = True\<rparr>])\<rparr> sampleWorld)) = 0
   \<and> buildPackages sampleEnv sampleArgs sampleConfig
        [''/p/contracts/a/Scarb.toml'', ''/p/contracts/b/Scarb.toml''] 0 sampleWorld =
       (Inl (StarknetPluginError
          ''Error in building a, could not find /p/starknet-artifacts/contracts/a/dev/a.starknet_artifacts.json''),
        snd (snd (scarbBuildStep sampleEnv sampleConfig ''/p/contracts/a/Scarb.toml''
        \<lparr>package_name = ''a'',
            target = Some (Some [\<lparr>tc_name = None, tc_sierra = True, tc_casm = True\<rparr>])\<rparr> sampleWorld)))"
proof -
  let ?cfg = "\<lparr>package_name = ''a'',
            target = Some (Some [\<lparr>tc_name = None, tc_sierra = True, tc_casm = True\<rparr>])\<rparr>"
  let ?step = "scarbBuildStep sampleEnv sampleConfig ''/p/contracts/a/Scarb.toml'' ?cfg sampleWorld"
  have load: "loadScarbTomlFromPath sampleEnv (trace sampleWorld) ''/p/contracts/a/Scarb.toml''
      (\<not> truthyFlag (skipValidate sampleArgs)) = Inr ?cfg"
    by (simp add: loadScarbTomlFromPath_def sampleManifest_def sampleArgs_def truthyFlag_def
          configCandidates_def truthyString_def)
  have step: "?step = (fst ?step, fst (snd ?step), snd (snd ?step))"
    by simp
  have ok: "statusCode (fst ?step) = 0"
    by (simp add: scarbBuildStep_def Let_def sampleOk_def split: prod.splits)
  have dir: "artifactDirPathOf sampleEnv sampleConfig ''/p/contracts/a/Scarb.toml''
               = ''/p/starknet-artifacts/contracts/a''"
    by (simp add: artifactDirPathOf_def sampleConfig_def)
  have missing: "\<not> existsSync sampleEnv (trace (snd (snd ?step)))
              (mainPackageArtifactPathOf sampleEnv
                 (path_join sampleEnv (artifactDirPathOf sampleEnv sampleConfig ''/p/contracts/a/Scarb.toml'') ''dev'')
                 (package_name ?cfg))"
    by (simp add: dir mainPackageArtifactPathOf_def)
  show ?thesis
    using missing_build_report_aborts_batch [OF load step ok missing, of "[''/p/contracts/b/Scarb.toml'']" 0]
      load ok
    by (simp add: dir mainPackageArtifactPathOf_def buildReportMissingMsg_def)
qed

text \<open>
  The claim as stated fails: in the sample project both manifests are in the batch, the
  missing report of package \<^verbatim>\<open>a\<close> ends the action, and package \<^verbatim>\<open>b\<close> is never
  looked at.
\<close>

theorem missing_build_report_counterexample:
  "findPackageConfigPaths sampleEnv (trace sampleWorld) (sourcesPathsOf sampleArgs sampleConfig)
       (paths_root sampleConfig)
     = Inr [''/p/contracts/a/Scarb.toml'', ''/p/contracts/b/Scarb.toml'']
   \<and> fst (starknetBuildAction sampleEnv sampleArgs sampleConfig sampleWorld) =
       Inl (StarknetPluginError
          ''Error in building a, could not find /p/starknet-artifacts/contracts/a/dev/a.starknet_artifacts.json'')
   \<and> observe buildAttempt (trace (snd (starknetBuildAction sampleEnv sampleArgs sampleConfig sampleWorld)))
       = [(''/p/contracts/a/Scarb.toml'', True)]"
  by (simp add: starknetBuildAction_def findPackageConfigPaths_def sourcesPathsOf_def
        checkSourceExists_def sampleArgs_def sampleConfig_def sampleWorld_def sampleBasename_def
        buildPackage_def loadScarbTomlFromPath_def sampleManifest_def truthyFlag_def
        configCandidates_def truthyString_def scarbBuildStep_def processExecuted_def
        artifactDirPathOf_def sampleOk_def loadScarbMainArtifact_def mainPackageArtifactPathOf_def
        buildReportMissingMsg_def buildingMsg_def statusMsg_def observe_def Let_def)

section \<open>Events of the compilation loops\<close>

lemma trace_emits [simp]: "trace (emits es w) = trace w @ es"
  by (simp add: emits_def)

lemma emit_emits: "emit ev w = emits [ev] w"
  by (simp add: emit_def emits_def)

lemma emits_emits [simp]: "emits es2 (emits es1 w) = emits (es1 @ es2) w"
  by (simp add: emits_def)

lemma initializeFile_emits: "initializeFile e p w = emits (initializeEvents e (trace w) p) w"
  by (simp add: initializeFile_def initializeEvents_def emit_def emits_def)

lemma processExecuted_emits:
  "processExecuted e executed logStatus w =
     (if statusCode executed \<noteq> 0 then 1 else 0, emits (processEvents e executed logStatus) w)"
  by (simp add: processExecuted_def processEvents_def emit_def emits_def Let_def)

lemma observe_Nil [simp]: "observe f [] = []"
  by (simp add: observe_def)

lemma observe_Cons [simp]: "observe f (ev # es) = f ev @ observe f es"
  by (simp add: observe_def)

lemma observe_append [simp]: "observe f (es1 @ es2) = observe f es1 @ observe f es2"
  by (simp add: observe_def)

lemma observe_silent: "(\<And>ev. ev \<in> set es \<Longrightarrow> f ev = []) \<Longrightarrow> observe f es = []"
  by (induction es) simp_all

lemma observe_initializeEvents [simp]:
  "observe sierraAttempt (initializeEvents e tr p) = []"
  "observe sierraOutput (initializeEvents e tr p) = []"
  "observe casmAttempt (initializeEvents e tr p) = []"
  "observe legacyAttempt (initializeEvents e tr p) = []"
  "observe buildAttempt (initializeEvents e tr p) = []"
  "observe cacheUpdate (initializeEvents e tr p) = []"
  "observe contentWrite (initializeEvents e tr p) = []"
  "observe fileCopy (initializeEvents e tr p) = []"
  "set (observe fileWrite (initializeEvents e tr p)) = {p}"
  by (simp_all add: initializeEvents_def)

lemma observe_processEvents [simp]:
  "observe sierraAttempt (processEvents e x b) = []"
  "observe sierraOutput (processEvents e x b) = []"
  "observe casmAttempt (processEvents e x b) = []"
  "observe legacyAttempt (processEvents e x b) = []"
  "observe buildAttempt (processEvents e x b) = []"
  "observe cacheUpdate (processEvents e x b) = []"
  "observe contentWrite (processEvents e x b) = []"
  "observe fileCopy (processEvents e x b) = []"
  "observe fileWrite (processEvents e x b) = []"
  by (simp_all add: processEvents_def)

lemma failedCount_simps [simp]:
  "failedCount [] = 0"
  "failedCount ((p, ok) # as) = (if ok then 0 else 1) + failedCount as"
  "failedCount (as @ bs) = failedCount as + failedCount bs"
  by (simp_all add: failedCount_def)

lemma succeeded_simps [simp]:
  "succeeded [] = []"
  "succeeded ((p, ok) # as) = (if ok then [p] else []) @ succeeded as"
  "succeeded (as @ bs) = succeeded as @ succeeded bs"
  by (simp_all add: succeeded_def)

lemma read_failure_witness:
  "readJsonAbi e tr p = Inl err
     \<Longrightarrow> observe sierraOutput tr \<noteq> [] \<and> last (observe sierraOutput tr) = (p, True)
     \<Longrightarrow> \<exists>tr p. readJsonAbi e tr p = Inl err
               \<and> observe sierraOutput tr \<noteq> [] \<and> last (observe sierraOutput tr) = (p, True)"
  by blast

text \<open>What one pass of the two-stage loop body adds to the trace.\<close>

lemma compileCairo1File_events:
  assumes "compileCairo1File e args cfg binDirPath file statusSum w = (r, w')"
  shows "\<exists>es. trace w' = trace w @ es
           \<and> map fst (observe sierraAttempt es) = [file]
           \<and> (case r of
                 Inr statusSum' \<Rightarrow>
                   statusSum' = statusSum + failedCount (observe sierraAttempt es)
                                  + failedCount (observe casmAttempt es)
                   \<and> map fst (observe casmAttempt es) =
                       map (cairo1OutputPath e cfg) (succeeded (observe sierraAttempt es))
                   \<and> observe cacheUpdate es = succeeded (observe sierraAttempt es)
               | Inl err \<Rightarrow>
                   succeeded (observe sierraAttempt es) = [file]
                   \<and> observe casmAttempt es = [] \<and> observe cacheUpdate es = []
                   \<and> (\<exists>tr p. readJsonAbi e tr p = Inl err \<and> freshSierra tr p))"
  using assms
  apply (auto simp add: compileCairo1File_def Let_def initializeFile_emits processExecuted_emits
      emit_emits cairo1OutputPath_def cairo1DirPath_def cairo1FileName_def freshSierra_def
      split: if_splits sum.splits)
  apply (rule read_failure_witness, assumption, simp)
  done

lemma compileCairo1File_writes:
  assumes "compileCairo1File e args cfg binDirPath file statusSum w = (r, w')"
  shows "\<exists>es. trace w' = trace w @ es
           \<and> (succeeded (observe sierraAttempt es) = [] \<longrightarrow>
                 set (observe fileWrite es) = {cairo1OutputPath e cfg file}
                 \<and> observe contentWrite es = [])
           \<and> (\<forall>pc \<in> set (observe contentWrite es).
                 fst pc = cairo1AbiOutput e cfg file
                 \<and> (\<exists>tr abi. readJsonAbi e tr (cairo1OutputPath e cfg file) = Inr abi
                       \<and> snd pc = abiFileContent e abi))"
  using assms
  by (auto simp add: compileCairo1File_def Let_def initializeFile_emits processExecuted_emits
      emit_emits cairo1OutputPath_def cairo1AbiOutput_def cairo1DirPath_def cairo1FileName_def
      split: if_splits sum.splits) blast+


lemma compileCairo1Files_events:
  "compileCairo1Files e args cfg binDirPath files statusSum w = (r, w') \<Longrightarrow>
   \<exists>es. trace w' = trace w @ es
     \<and> (case r of
           Inr statusSum' \<Rightarrow>
             map fst (observe sierraAttempt es) = files
             \<and> statusSum' = statusSum + failedCount (observe sierraAttempt es)
                              + failedCount (observe casmAttempt es)
             \<and> map fst (observe casmAttempt es) =
                 map (cairo1OutputPath e cfg) (succeeded (observe sierraAttempt es))
             \<and> observe cacheUpdate es = succeeded (observe sierraAttempt es)
         | Inl err \<Rightarrow>
             (\<exists>f. succeeded (observe sierraAttempt es) = observe cacheUpdate es @ [f])
             \<and> (\<exists>tr p. readJsonAbi e tr p = Inl err \<and> freshSierra tr p))"
proof (induction files arbitrary: statusSum w)
  case Nil
  then show ?case by auto
next
  case (Cons src srcs)
  obtain r1 w1 where step: "compileCairo1File e args cfg binDirPath src statusSum w = (r1, w1)"
    by (cases "compileCairo1File e args cfg binDirPath src statusSum w")
  obtain es1 where
    es1: "trace w1 = trace w @ es1
          \<and> map fst (observe sierraAttempt es1) = [src]
          \<and> (case r1 of
               Inr statusSum' \<Rightarrow>
                 statusSum' = statusSum + failedCount (observe sierraAttempt es1)
                                + failedCount (observe casmAttempt es1)
                 \<and> map fst (observe casmAttempt es1) =
                     map (cairo1OutputPath e cfg) (succeeded (observe sierraAttempt es1))
                 \<and> observe cacheUpdate es1 = succeeded (observe sierraAttempt es1)
             | Inl err \<Rightarrow>
                 succeeded (observe sierraAttempt es1) = [src]
                 \<and> observe casmAttempt es1 = [] \<and> observe cacheUpdate es1 = []
                 \<and> (\<exists>tr p. readJsonAbi e tr p = Inl err \<and> freshSierra tr p))"
    using compileCairo1File_events [OF step] ..
  show ?case
  proof (cases r1)
    case (Inl err)
    with Cons.prems step have "r = Inl err" "w' = w1" by simp_all
    with es1 Inl show ?thesis by auto
  next
    case (Inr statusSum1)
    with Cons.prems step
    have rest: "compileCairo1Files e args cfg binDirPath srcs statusSum1 w1 = (r, w')"
      by simp
    obtain es2 where
      es2: "trace w' = trace w1 @ es2
        \<and> (case r of
           Inr statusSum' \<Rightarrow>
             map fst (observe sierraAttempt es2) = srcs
             \<and> statusSum' = statusSum1 + failedCount (observe sierraAttempt es2)
                              + failedCount (observe casmAttempt es2)
             \<and> map fst (observe casmAttempt es2) =
                 map (cairo1OutputPath e cfg) (succeeded (observe sierraAttempt es2))
             \<and> observe cacheUpdate es2 = succeeded (observe sierraAttempt es2)
         | Inl err \<Rightarrow>
             (\<exists>f. succeeded (observe sierraAttempt es2) = observe cacheUpdate es2 @ [f])
             \<and> (\<exists>tr p. readJsonAbi e tr p = Inl err \<and> freshSierra tr p))"
      using Cons.IH [OF rest] ..
    have "trace w' = trace w @ (es1 @ es2)
        \<and> (case r of
           Inr statusSum' \<Rightarrow>
             map fst (observe sierraAttempt (es1 @ es2)) = src # srcs
             \<and> statusSum' = statusSum + failedCount (observe sierraAttempt (es1 @ es2))
                              + failedCount (observe casmAttempt (es1 @ es2))
             \<and> map fst (observe casmAttempt (es1 @ es2)) =
                 map (cairo1OutputPath e cfg) (succeeded (observe sierraAttempt (es1 @ es2)))
             \<and> observe cacheUpdate (es1 @ es2) = succeeded (observe sierraAttempt (es1 @ es2))
         | Inl err \<Rightarrow>
             (\<exists>f. succeeded (observe sierraAttempt (es1 @ es2))
                     = observe cacheUpdate (es1 @ es2) @ [f])
             \<and> (\<exists>tr p. readJsonAbi e tr p = Inl err \<and> freshSierra tr p))"
      using es1 es2 Inr by (cases r) auto
    then show ?thesis by (rule exI [of _ "es1 @ es2"])
  qed
qed


lemma compileCairo1Paths_events:
  "compileCairo1Paths e args cfg binDirPath sourcesPaths statusSum w = (r, w') \<Longrightarrow>
   \<exists>es. trace w' = trace w @ es
     \<and> (case r of
           Inr statusSum' \<Rightarrow>
             statusSum' = statusSum + failedCount (observe sierraAttempt es)
                            + failedCount (observe casmAttempt es)
             \<and> map fst (observe casmAttempt es) =
                 map (cairo1OutputPath e cfg) (succeeded (observe sierraAttempt es))
             \<and> observe cacheUpdate es = succeeded (observe sierraAttempt es)
         | Inl err \<Rightarrow>
             (observe cacheUpdate es = succeeded (observe sierraAttempt es)
              \<and> (\<exists>tr p. p \<in> set sourcesPaths \<and> \<not> existsSync e tr (adaptPath e (paths_root cfg) p)))
             \<or> ((\<exists>f. succeeded (observe sierraAttempt es) = observe cacheUpdate es @ [f])
                 \<and> (\<exists>tr p. readJsonAbi e tr p = Inl err \<and> freshSierra tr p)))
     \<and> ((\<forall>tr. \<forall>p \<in> set sourcesPaths.
            traverseFiles e tr (adaptPath e (paths_root cfg) p) ''*.cairo'' = filesOf p)
          \<longrightarrow> (\<forall>statusSum'. r = Inr statusSum' \<longrightarrow>
                 map fst (observe sierraAttempt es) = concat (map filesOf sourcesPaths)))"
proof (induction sourcesPaths arbitrary: statusSum w)
  case Nil
  then show ?case by auto
next
  case (Cons sp sps)
  let ?sp = "adaptPath e (paths_root cfg) sp"
  show ?case
  proof (cases "existsSync e (trace w) ?sp")
    case False
    with Cons.prems
    have "r = Inl (StarknetPluginError (sourceNotFoundMsg ?sp))" "w' = w"
      by (simp_all add: checkSourceExists_def)
    moreover have "\<exists>tr p. p \<in> set (sp # sps) \<and> \<not> existsSync e tr (adaptPath e (paths_root cfg) p)"
      using False by auto
    ultimately show ?thesis by auto
  next
    case True
    let ?files = "traverseFiles e (trace w) ?sp ''*.cairo''"
    obtain r1 w1 where
      inner: "compileCairo1Files e args cfg binDirPath ?files statusSum w = (r1, w1)"
      by (cases "compileCairo1Files e args cfg binDirPath ?files statusSum w")
    obtain es1 where
      es1: "trace w1 = trace w @ es1
        \<and> (case r1 of
           Inr statusSum' \<Rightarrow>
             map fst (observe sierraAttempt es1) = ?files
             \<and> statusSum' = statusSum + failedCount (observe sierraAttempt es1)
                              + failedCount (observe casmAttempt es1)
             \<and> map fst (observe casmAttempt es1) =
                 map (cairo1OutputPath e cfg) (succeeded (observe sierraAttempt es1))
             \<and> observe cacheUpdate es1 = succeeded (observe sierraAttempt es1)
         | Inl err \<Rightarrow>
             (\<exists>f. succeeded (observe sierraAttempt es1) = observe cacheUpdate es1 @ [f])
             \<and> (\<exists>tr p. readJsonAbi e tr p = Inl err \<and> freshSierra tr p))"
      using compileCairo1Files_events [OF inner] ..
    show ?thesis
    proof (cases r1)
      case (Inl err)
      with Cons.prems True inner have "r = Inl err" "w' = w1"
        by (simp_all add: checkSourceExists_def)
      with es1 Inl show ?thesis by auto
    next
      case (Inr statusSum1)
      with Cons.prems True inner
      have rest: "compileCairo1Paths e args cfg binDirPath sps statusSum1 (emit SaveCache w1)
                    = (r, w')"
        by (simp add: checkSourceExists_def)
      obtain es2 where
        es2: "trace w' = trace (emit SaveCache w1) @ es2
          \<and> (case r of
           Inr statusSum' \<Rightarrow>
             statusSum' = statusSum1 + failedCount (observe sierraAttempt es2)
                            + failedCount (observe casmAttempt es2)
             \<and> map fst (observe casmAttempt es2) =
                 map (cairo1OutputPath e cfg) (succeeded (observe sierraAttempt es2))
             \<and> observe cacheUpdate es2 = succeeded (observe sierraAttempt es2)
         | Inl err \<Rightarrow>
             (observe cacheUpdate es2 = succeeded (observe sierraAttempt es2)
              \<and> (\<exists>tr p. p \<in> set sps \<and> \<not> existsSync e tr (adaptPath e (paths_root cfg) p)))
             \<or> ((\<exists>f. succeeded (observe sierraAttempt es2) = observe cacheUpdate es2 @ [f])
                 \<and> (\<exists>tr p. readJsonAbi e tr p = Inl err \<and> freshSierra tr p)))
     \<and> ((\<forall>tr. \<forall>p \<in> set sps.
            traverseFiles e tr (adaptPath e (paths_root cfg) p) ''*.cairo'' = filesOf p)
          \<longrightarrow> (\<forall>statusSum'. r = Inr statusSum' \<longrightarrow>
                 map fst (observe sierraAttempt es2) = concat (map filesOf sps)))"
        using Cons.IH [OF rest] ..
      let ?es = "es1 @ SaveCache # es2"
      have tr: "trace w' = trace w @ ?es"
        using es1 es2 by simp
      have res: "case r of
           Inr statusSum' \<Rightarrow>
             statusSum' = statusSum + failedCount (observe sierraAttempt ?es)
                            + failedCount (observe casmAttempt ?es)
             \<and> map fst (observe casmAttempt ?es) =
                 map (cairo1OutputPath e cfg) (succeeded (observe sierraAttempt ?es))
             \<and> observe cacheUpdate ?es = succeeded (observe sierraAttempt ?es)
         | Inl err \<Rightarrow>
             (observe cacheUpdate ?es = succeeded (observe sierraAttempt ?es)
              \<and> (\<exists>tr p. p \<in> set (sp # sps)
                    \<and> \<not> existsSync e tr (adaptPath e (paths_root cfg) p)))
             \<or> ((\<exists>f. succeeded (observe sierraAttempt ?es) = observe cacheUpdate ?es @ [f])
                 \<and> (\<exists>tr p. readJsonAbi e tr p = Inl err \<and> freshSierra tr p))"
        using es1 es2 Inr by (cases r) auto
      have batch: "(\<forall>tr. \<forall>p \<in> set (sp # sps).
            traverseFiles e tr (adaptPath e (paths_root cfg) p) ''*.cairo'' = filesOf p)
          \<longrightarrow> (\<forall>statusSum'. r = Inr statusSum' \<longrightarrow>
                 map fst (observe sierraAttempt ?es) = concat (map filesOf (sp # sps)))"
        using es1 es2 Inr by auto
      note all = conjI [OF tr conjI [OF res batch]]
      show ?thesis by (rule exI [of _ ?es]) (rule all)
    qed
  qed
qed

text \<open>The same for the legacy pipeline, whose loop body cannot throw.\<close>

lemma deprecatedCompileFile_events:
  "deprecatedCompileFile e args cfg cairoPath' src statusSum w = (statusSum', w') \<Longrightarrow>
   \<exists>es. trace w' = trace w @ es
     \<and> map fst (observe legacyAttempt es) = [src]
     \<and> observe cacheUpdate es = [src]
     \<and> statusSum' = statusSum + failedCount (observe legacyAttempt es)"
  by (auto simp add: deprecatedCompileFile_def Let_def initializeFile_emits processExecuted_emits
      emit_emits)

lemma deprecatedCompileFiles_events:
  "deprecatedCompileFiles e args cfg cairoPath' files statusSum w = (statusSum', w') \<Longrightarrow>
   \<exists>es. trace w' = trace w @ es
     \<and> map fst (observe legacyAttempt es) = files
     \<and> observe cacheUpdate es = files
     \<and> statusSum' = statusSum + failedCount (observe legacyAttempt es)"
proof (induction files arbitrary: statusSum w)
  case Nil
  then show ?case by auto
next
  case (Cons src srcs)
  obtain s1 w1 where step: "deprecatedCompileFile e args cfg cairoPath' src statusSum w = (s1, w1)"
    by (cases "deprecatedCompileFile e args cfg cairoPath' src statusSum w")
  obtain es1 where
    es1: "trace w1 = trace w @ es1 \<and> map fst (observe legacyAttempt es1) = [src]
          \<and> observe cacheUpdate es1 = [src]
          \<and> s1 = statusSum + failedCount (observe legacyAttempt es1)"
    using deprecatedCompileFile_events [OF step] ..
  from Cons.prems step
  have rest: "deprecatedCompileFiles e args cfg cairoPath' srcs s1 w1 = (statusSum', w')"
    by simp
  obtain es2 where
    es2: "trace w' = trace w1 @ es2 \<and> map fst (observe legacyAttempt es2) = srcs
          \<and> observe cacheUpdate es2 = srcs
          \<and> statusSum' = s1 + failedCount (observe legacyAttempt es2)"
    using Cons.IH [OF rest] ..
  have "trace w' = trace w @ (es1 @ es2)
        \<and> map fst (observe legacyAttempt (es1 @ es2)) = src # srcs
        \<and> observe cacheUpdate (es1 @ es2) = src # srcs
        \<and> statusSum' = statusSum + failedCount (observe legacyAttempt (es1 @ es2))"
    using es1 es2 by simp
  then show ?case by (rule exI [of _ "es1 @ es2"])
qed

lemma deprecatedCompilePaths_events:
  "deprecatedCompilePaths e args cfg cairoPath' sourcesPaths statusSum w = (r, w') \<Longrightarrow>
   \<exists>es. trace w' = trace w @ es
     \<and> observe cacheUpdate es = map fst (observe legacyAttempt es)
     \<and> (case r of
           Inr statusSum' \<Rightarrow> statusSum' = statusSum + failedCount (observe legacyAttempt es)
         | Inl err \<Rightarrow>
             (\<exists>tr p. p \<in> set sourcesPaths \<and> \<not> existsSync e tr (adaptPath e (paths_root cfg) p)))
     \<and> ((\<forall>tr. \<forall>p \<in> set sourcesPaths.
            traverseFiles e tr (adaptPath e (paths_root cfg) p) ''*.cairo'' = filesOf p)
          \<longrightarrow> (\<forall>statusSum'. r = Inr statusSum' \<longrightarrow>
                 map fst (observe legacyAttempt es) = concat (map filesOf sourcesPaths)))"
proof (induction sourcesPaths arbitrary: statusSum w)
  case Nil
  then show ?case by auto
next
  case (Cons sp sps)
  let ?sp = "adaptPath e (paths_root cfg) sp"
  show ?case
  proof (cases "existsSync e (trace w) ?sp")
    case False
    with Cons.prems
    have "r = Inl (StarknetPluginError (sourceNotFoundMsg ?sp))" "w' = w"
      by (simp_all add: checkSourceExists_def)
    moreover have "\<exists>tr p. p \<in> set (sp # sps) \<and> \<not> existsSync e tr (adaptPath e (paths_root cfg) p)"
      using False by auto
    ultimately show ?thesis by auto
  next
    case True
    let ?files = "traverseFiles e (trace w) ?sp ''*.cairo''"
    obtain s1 w1 where
      inner: "deprecatedCompileFiles e args cfg cairoPath' ?files statusSum w = (s1, w1)"
      by (cases "deprecatedCompileFiles e args cfg cairoPath' ?files statusSum w")
    obtain es1 where
      es1: "trace w1 = trace w @ es1 \<and> map fst (observe legacyAttempt es1) = ?files
            \<and> observe cacheUpdate es1 = ?files
            \<and> s1 = statusSum + failedCount (observe legacyAttempt es1)"
      using deprecatedCompileFiles_events [OF inner] ..
    from Cons.prems True inner
    have rest: "deprecatedCompilePaths e args cfg cairoPath' sps s1 (emit SaveCache w1) = (r, w')"
      by (simp add: checkSourceExists_def)
    obtain es2 where
      es2: "trace w' = trace (emit SaveCache w1) @ es2
        \<and> observe cacheUpdate es2 = map fst (observe legacyAttempt es2)
        \<and> (case r of
              Inr statusSum' \<Rightarrow> statusSum' = s1 + failedCount (observe legacyAttempt es2)
            | Inl err \<Rightarrow>
                (\<exists>tr p. p \<in> set sps \<and> \<not> existsSync e tr (adaptPath e (paths_root cfg) p)))
        \<and> ((\<forall>tr. \<forall>p \<in> set sps.
               traverseFiles e tr (adaptPath e (paths_root cfg) p) ''*.cairo'' = filesOf p)
             \<longrightarrow> (\<forall>statusSum'. r = Inr statusSum' \<longrightarrow>
                    map fst (observe legacyAttempt es2) = concat (map filesOf sps)))"
      using Cons.IH [OF rest] ..
    let ?es = "es1 @ SaveCache # es2"
    have tr: "trace w' = trace w @ ?es"
      using es1 es2 by simp
    have cache: "observe cacheUpdate ?es = map fst (observe legacyAttempt ?es)"
      using es1 es2 by simp
    have res: "case r of
              Inr statusSum' \<Rightarrow> statusSum' = statusSum + failedCount (observe legacyAttempt ?es)
            | Inl err \<Rightarrow>
                (\<exists>tr p. p \<in> set (sp # sps)
                   \<and> \<not> existsSync e tr (adaptPath e (paths_root cfg) p))"
      using es1 es2 by (cases r) auto
    have batch: "(\<forall>tr. \<forall>p \<in> set (sp # sps).
               traverseFiles e tr (adaptPath e (paths_root cfg) p) ''*.cairo'' = filesOf p)
             \<longrightarrow> (\<forall>statusSum'. r = Inr statusSum' \<longrightarrow>
                    map fst (observe legacyAttempt ?es) = concat (map filesOf (sp # sps)))"
      using es1 es2 by auto
    note all = conjI [OF tr conjI [OF cache conjI [OF res batch]]]
    show ?thesis by (rule exI [of _ ?es]) (rule all)
  qed
qed

section \<open>The compact rendering of a JSON value\<close>

lemma hexChar_no_newline: "hexChar d \<noteq> CHR 0x0A"
proof -
  have "hexChar d \<in> set ''0123456789abcdef''"
    unfolding hexChar_def by (rule nth_mem) simp
  then show ?thesis by auto
qed

lemma quoteJSONChar_no_newline: "CHR 0x0A \<notin> set (quoteJSONChar c)"
  by (simp add: quoteJSONChar_def hexChar_no_newline [symmetric])

lemma quoteJSONString_no_newline: "CHR 0x0A \<notin> set (quoteJSONString s)"
  by (simp add: quoteJSONString_def quoteJSONChar_no_newline)

lemma joinWith_no_newline:
  "CHR 0x0A \<notin> set sep \<Longrightarrow> (\<And>x. x \<in> set xs \<Longrightarrow> CHR 0x0A \<notin> set x)
     \<Longrightarrow> CHR 0x0A \<notin> set (joinWith sep xs)"
  by (induction sep xs rule: joinWith.induct) auto

lemma JSON_stringify_no_newline:
  assumes numbers: "\<And>num. CHR 0x0A \<notin> set (numberToString e num)"
  shows "CHR 0x0A \<notin> set (JSON_stringify e j)"
proof (induction j)
  case (JArray xs)
  then have "CHR 0x0A \<notin> set (joinWith '','' (map (JSON_stringify e) xs))"
    by (intro joinWith_no_newline) auto
  then show ?case by simp
next
  case (JObject kvs)
  have "CHR 0x0A \<notin> set (joinWith '',''
          (map (\<lambda>kv. quoteJSONString (fst kv) @ '':'' @ JSON_stringify e (snd kv)) kvs))"
  proof (intro joinWith_no_newline)
    show "CHR 0x0A \<notin> set '',''" by simp
  next
    fix x
    assume "x \<in> set (map (\<lambda>kv. quoteJSONString (fst kv) @ '':'' @ JSON_stringify e (snd kv)) kvs)"
    then obtain kv where kv: "kv \<in> set kvs"
      and x: "x = quoteJSONString (fst kv) @ '':'' @ JSON_stringify e (snd kv)"
      by auto
    have "snd kv \<in> Basic_BNFs.snds kv"
      by (cases kv) simp
    with JObject kv have "CHR 0x0A \<notin> set (JSON_stringify e (snd kv))"
      by blast
    with x show "CHR 0x0A \<notin> set x"
      by (simp add: quoteJSONString_no_newline)
  qed
  then show ?case by simp
qed (simp_all add: numbers quoteJSONString_no_newline)

lemma abiFileContent_one_line:
  assumes "\<And>num. CHR 0x0A \<notin> set (numberToString e num)"
  shows "abiFileContent e abi =
     (case abi of None \<Rightarrow> ''undefined'' | Some j \<Rightarrow> JSON_stringify e j) @ [CHR 0x0A]
   \<and> CHR 0x0A \<notin> set (case abi of None \<Rightarrow> ''undefined'' | Some j \<Rightarrow> JSON_stringify e j)"
  using assms by (cases abi) (simp_all add: abiFileContent_def JSON_stringify_no_newline)

text \<open>Where the two ABI extractions write, and what.\<close>

lemma compileCairo1File_abi_elim:
  assumes "compileCairo1File e args cfg binDirPath src statusSum w = (r, w')"
      and "trace w' = trace w @ es"
      and "observe sierraAttempt es = [(src, True)]"
      and failed: "\<And>pre err.
           readJsonAbi e (trace w @ pre) (cairo1OutputPath e cfg src) = Inl err
           \<Longrightarrow> r = Inl err
           \<Longrightarrow> es = pre
           \<Longrightarrow> observe contentWrite pre = [] \<and> observe sierraAttempt pre = [(src, True)]
           \<Longrightarrow> thesis"
      and written: "\<And>pre abi post.
           readJsonAbi e (trace w @ pre) (cairo1OutputPath e cfg src) = Inr abi
           \<Longrightarrow> es = pre @ WriteFile (cairo1AbiOutput e cfg src) (abiFileContent e abi) # post
           \<Longrightarrow> observe contentWrite pre = [] \<and> observe sierraAttempt pre = [(src, True)]
                \<and> observe contentWrite post = [] \<and> (\<exists>statusSum'. r = Inr statusSum')
           \<Longrightarrow> thesis"
  shows thesis
  using assms(1-3)
  apply (auto simp add: compileCairo1File_def Let_def initializeFile_emits processExecuted_emits
      emit_emits split: if_splits sum.splits)
   apply (rule failed [unfolded cairo1OutputPath_def cairo1AbiOutput_def cairo1DirPath_def
        cairo1FileName_def], assumption, simp, simp, simp
      | rule written [unfolded cairo1OutputPath_def cairo1AbiOutput_def cairo1DirPath_def
        cairo1FileName_def], assumption, simp, simp)+
  done

lemma compileCairo1File_abi_written:
  assumes "compileCairo1File e args cfg binDirPath src statusSum w = (r, w')"
      and "trace w' = trace w @ es"
      and "observe sierraAttempt es = [(src, True)]"
  shows "\<exists>pre. observe contentWrite pre = [] \<and> observe sierraAttempt pre = [(src, True)]
           \<and> (case readJsonAbi e (trace w @ pre) (cairo1OutputPath e cfg src) of
                 Inl err \<Rightarrow> r = Inl err \<and> es = pre
               | Inr abi \<Rightarrow>
                   (\<exists>statusSum'. r = Inr statusSum')
                   \<and> (\<exists>post. es = pre @ WriteFile (cairo1AbiOutput e cfg src)
                                            (abiFileContent e abi) # post
                         \<and> observe contentWrite post = []))"
proof (rule compileCairo1File_abi_elim [OF assms])
  fix pre err
  assume "readJsonAbi e (trace w @ pre) (cairo1OutputPath e cfg src) = Inl err"
    and "r = Inl err" and "es = pre"
    and "observe contentWrite pre = [] \<and> observe sierraAttempt pre = [(src, True)]"
  then show ?thesis
    by (intro exI [of _ pre]) simp
next
  fix pre abi post
  assume "readJsonAbi e (trace w @ pre) (cairo1OutputPath e cfg src) = Inr abi"
    and "es = pre @ WriteFile (cairo1AbiOutput e cfg src) (abiFileContent e abi) # post"
    and "observe contentWrite pre = [] \<and> observe sierraAttempt pre = [(src, True)]
                \<and> observe contentWrite post = [] \<and> (\<exists>statusSum'. r = Inr statusSum')"
  then show ?thesis
    by (intro exI [of _ pre]) simp
qed

lemma copyContractEntry_abi_elim:
  assumes "copyContractEntry e artifactDirPath scarbArtifactDirPath contractEntry w = (r, w')"
      and "trace w' = trace w @ es"
      and "truthyString (ce_artifacts_sierra contractEntry) = Some sierra"
      and "observe fileCopy es \<noteq> []"
      and failed: "\<And>pre err.
           readJsonAbi e (trace w @ pre) (path_join e scarbArtifactDirPath sierra) = Inl err
           \<Longrightarrow> r = Inl err
           \<Longrightarrow> es = pre
           \<Longrightarrow> observe contentWrite pre = []
                \<and> observe fileCopy pre = [(path_join e scarbArtifactDirPath sierra,
                                            scarbSierraOutput e artifactDirPath contractEntry)]
           \<Longrightarrow> thesis"
      and written: "\<And>pre abi post.
           readJsonAbi e (trace w @ pre) (path_join e scarbArtifactDirPath sierra) = Inr abi
           \<Longrightarrow> es = pre @ WriteFile (scarbAbiOutput e artifactDirPath contractEntry)
                            (abiFileContent e abi) # post
           \<Longrightarrow> observe contentWrite pre = []
                \<and> observe fileCopy pre = [(path_join e scarbArtifactDirPath sierra,
                                            scarbSierraOutput e artifactDirPath contractEntry)]
                \<and> observe contentWrite post = []
           \<Longrightarrow> thesis"
  shows thesis
  using assms(1-4)
  apply (auto simp add: copyContractEntry_def Let_def initializeFile_emits emit_emits
      split: option.splits sum.splits)
     apply (rule failed [unfolded scarbAbiOutput_def scarbSierraOutput_def],
        assumption, simp, simp, simp
      | rule written [unfolded scarbAbiOutput_def scarbSierraOutput_def],
        assumption, simp, simp)+
  done

lemma copyContractEntry_abi_written:
  assumes "copyContractEntry e artifactDirPath scarbArtifactDirPath contractEntry w = (r, w')"
      and "trace w' = trace w @ es"
      and "truthyString (ce_artifacts_sierra contractEntry) = Some sierra"
      and "observe fileCopy es \<noteq> []"
  shows "\<exists>pre. observe contentWrite pre = []
           \<and> observe fileCopy pre = [(path_join e scarbArtifactDirPath sierra,
                                       scarbSierraOutput e artifactDirPath contractEntry)]
           \<and> (case readJsonAbi e (trace w @ pre) (path_join e scarbArtifactDirPath sierra) of
                 Inl err \<Rightarrow> r = Inl err \<and> es = pre
               | Inr abi \<Rightarrow>
                   (\<exists>post. es = pre @ WriteFile (scarbAbiOutput e artifactDirPath contractEntry)
                                            (abiFileContent e abi) # post
                         \<and> observe contentWrite post = []))"
proof (rule copyContractEntry_abi_elim [OF assms])
  fix pre err
  assume "readJsonAbi e (trace w @ pre) (path_join e scarbArtifactDirPath sierra) = Inl err"
    and "r = Inl err" and "es = pre"
    and "observe contentWrite pre = []
                \<and> observe fileCopy pre = [(path_join e scarbArtifactDirPath sierra,
                                            scarbSierraOutput e artifactDirPath contractEntry)]"
  then show ?thesis
    by (intro exI [of _ pre]) simp
next
  fix pre abi post
  assume "readJsonAbi e (trace w @ pre) (path_join e scarbArtifactDirPath sierra) = Inr abi"
    and "es = pre @ WriteFile (scarbAbiOutput e artifactDirPath contractEntry)
                            (abiFileContent e abi) # post"
    and "observe contentWrite pre = []
                \<and> observe fileCopy pre = [(path_join e scarbArtifactDirPath sierra,
                                            scarbSierraOutput e artifactDirPath contractEntry)]
                \<and> observe contentWrite post = []"
  then show ?thesis
    by (intro exI [of _ pre]) simp
qed

section \<open>Runs of the sample project\<close>

lemmas sample_defs =
  sampleArgs_def sampleConfig_def sampleWorld_def sampleBasename_def sampleExtname_def
  sampleBasenameExt_def sampleOk_def sampleAbi_def sampleManifest_def getFileName_def
  processEvents_def initializeEvents_def statusMsg_def sampleRead_def

lemma sample_paths:
  "cairo1OutputPath sampleEnv sampleConfig ''/p/contracts/bad.cairo''
     = ''/p/starknet-artifacts/contracts/bad.cairo/bad.json''"
  "cairo1AbiOutput sampleEnv sampleConfig ''/p/contracts/bad.cairo''
     = ''/p/starknet-artifacts/contracts/bad.cairo/bad_abi.json''"
  "cairo1CasmOutput sampleEnv sampleConfig ''/p/contracts/bad.cairo''
     = ''/p/starknet-artifacts/contracts/bad.cairo/bad.casm''"
  "cairo1OutputPath sampleEnv sampleConfig ''/p/contracts/good.cairo''
     = ''/p/starknet-artifacts/contracts/good.cairo/good.json''"
  "cairo1AbiOutput sampleEnv sampleConfig ''/p/contracts/good.cairo''
     = ''/p/starknet-artifacts/contracts/good.cairo/good_abi.json''"
  "scarbSierraOutput sampleEnv ''/p/starknet-artifacts/contracts/a'' sampleEntry
     = ''/p/starknet-artifacts/contracts/a/a_Counter.cairo/a_Counter.json''"
  "scarbAbiOutput sampleEnv ''/p/starknet-artifacts/contracts/a'' sampleEntry
     = ''/p/starknet-artifacts/contracts/a/a_Counter.cairo/a_Counter_abi.json''"
  by (simp_all add: cairo1OutputPath_def cairo1AbiOutput_def cairo1CasmOutput_def
        cairo1DirPath_def cairo1FileName_def scarbSierraOutput_def scarbAbiOutput_def
        sampleEntry_def sample_defs)

lemma sample_abi_text:
  "abiFileContent sampleEnv (Some sampleAbi)
     = ''[{\"type\":\"function\",\"name\":\"get\",\"inputs\":[]}]'' @ [CHR 0x0A]"
  by (simp add: abiFileContent_def sampleAbi_def quoteJSONString_def quoteJSONChar_def)

lemma sample_read: "sampleRead tr p = Inr abi \<Longrightarrow> abi = Some sampleAbi"
  by (simp add: sampleRead_def split: if_splits)

lemma sample_bad_file:
  "compileCairo1File sampleEnv sampleArgs sampleConfig None ''/p/contracts/bad.cairo'' 0 sampleWorld
     = (Inr 1,
        emits [ConsoleLog ''Compiling /p/contracts/bad.cairo'',
               MkdirRecursive ''/p/starknet-artifacts/contracts/bad.cairo'',
               Unlink ''/p/starknet-artifacts/contracts/bad.cairo/bad.json'',
               CreateEmpty ''/p/starknet-artifacts/contracts/bad.cairo/bad.json'',
               CompileCairoToSierra
                 \<lparr>c2s_path = ''/p/contracts/bad.cairo'',
                  c2s_output = ''/p/starknet-artifacts/contracts/bad.cairo/bad.json'',
                  c2s_binDirPath = None, c2s_replaceIds = None,
                  c2s_allowedLibfuncsListName = None, c2s_allowedLibfuncsListFile = None,
                  c2s_singleFile = None\<rparr>
                 \<lparr>statusCode = 1, stdout = [], stderr = []\<rparr>,
               ConsoleLog ([CHR 0x09] @ ''Failed'' @ [CHR 0x0A])]
          sampleWorld)"
  by (simp add: compileCairo1File_def Let_def initializeFile_emits processExecuted_emits
        emit_emits sample_defs)

lemma sample_good_file:
  "compileCairo1File sampleEnv sampleArgs sampleConfig None ''/p/contracts/good.cairo'' 0
     sampleWorld
     = (Inr 0,
        emits [ConsoleLog ''Compiling /p/contracts/good.cairo'',
               MkdirRecursive ''/p/starknet-artifacts/contracts/good.cairo'',
               Unlink ''/p/starknet-artifacts/contracts/good.cairo/good.json'',
               CreateEmpty ''/p/starknet-artifacts/contracts/good.cairo/good.json'',
               CompileCairoToSierra
                 \<lparr>c2s_path = ''/p/contracts/good.cairo'',
                  c2s_output = ''/p/starknet-artifacts/contracts/good.cairo/good.json'',
                  c2s_binDirPath = None, c2s_replaceIds = None,
                  c2s_allowedLibfuncsListName = None, c2s_allowedLibfuncsListFile = None,
                  c2s_singleFile = None\<rparr>
                 \<lparr>statusCode = 0, stdout = [], stderr = []\<rparr>,
               ConsoleLog ([CHR 0x09] @ ''Succeeded '' @ [CHR 0xE2, CHR 0x9C, CHR 0x85]
                             @ [CHR 0x0A]),
               Unlink ''/p/starknet-artifacts/contracts/good.cairo/good_abi.json'',
               CreateEmpty ''/p/starknet-artifacts/contracts/good.cairo/good_abi.json'',
               WriteFile ''/p/starknet-artifacts/contracts/good.cairo/good_abi.json''
                 (''[{\"type\":\"function\",\"name\":\"get\",\"inputs\":[]}]'' @ [CHR 0x0A]),
               Unlink ''/p/starknet-artifacts/contracts/good.cairo/good.casm'',
               CreateEmpty ''/p/starknet-artifacts/contracts/good.cairo/good.casm'',
               CompileSierraToCasm
                 \<lparr>s2c_file = ''/p/starknet-artifacts/contracts/good.cairo/good.json'',
                  s2c_output = ''/p/starknet-artifacts/contracts/good.cairo/good.casm'',
                  s2c_binDirPath = None, s2c_addPythonicHints = None,
                  s2c_allowedLibfuncsListName = None, s2c_allowedLibfuncsListFile = None\<rparr>
                 \<lparr>statusCode = 0, stdout = [], stderr = []\<rparr>,
               ConsoleLog ([CHR 0x09] @ ''Succeeded '' @ [CHR 0xE2, CHR 0x9C, CHR 0x85]
                             @ [CHR 0x0A]),
               UpdateCache sampleArgs ''/p/contracts/good.cairo''
                 ''/p/starknet-artifacts/contracts/good.cairo/good.json''
                 ''/p/starknet-artifacts/contracts/good.cairo/good_abi.json'' None]
          sampleWorld)"
  by (simp add: compileCairo1File_def Let_def initializeFile_emits processExecuted_emits
        emit_emits sample_defs abiFileContent_def quoteJSONString_def quoteJSONChar_def)

lemma sample_entry_copy:
  "copyContractEntry sampleEnv ''/p/starknet-artifacts/contracts/a''
     ''/p/starknet-artifacts/contracts/a/dev'' sampleEntry sampleWorld
     = (Inr (),
        emits [MkdirRecursive ''/p/starknet-artifacts/contracts/a/a_Counter.cairo'',
               CopyFile ''/p/starknet-artifacts/contracts/a/dev/a_Counter.contract_class.json''
                 ''/p/starknet-artifacts/contracts/a/a_Counter.cairo/a_Counter.json'',
               Unlink ''/p/starknet-artifacts/contracts/a/a_Counter.cairo/a_Counter_abi.json'',
               CreateEmpty ''/p/starknet-artifacts/contracts/a/a_Counter.cairo/a_Counter_abi.json'',
               WriteFile ''/p/starknet-artifacts/contracts/a/a_Counter.cairo/a_Counter_abi.json''
                 (''[{\"type\":\"function\",\"name\":\"get\",\"inputs\":[]}]'' @ [CHR 0x0A]),
               CopyFile
                 ''/p/starknet-artifacts/contracts/a/dev/a_Counter.compiled_contract_class.json''
                 ''/p/starknet-artifacts/contracts/a/a_Counter.cairo/a_Counter.casm'']
          sampleWorld)"
  by (simp add: copyContractEntry_def Let_def initializeFile_emits emit_emits sample_defs
        sampleEntry_def truthyString_def abiFileContent_def quoteJSONString_def
        quoteJSONChar_def)

section \<open>The two-stage pipeline\<close>

text \<open>
  C6. Take one pass of the loop body of \<^verbatim>\<open>starknetCompileCairo1Action\<close> for a source
  file, and let \<open>es\<close> be the events it adds. If the first stage (source to Sierra) it
  invoked reported failure, then the pass counts one failure, the second stage (Sierra to
  CASM) is not invoked, nothing is written as ABI, the cache is not updated, and the only
  file the pass creates, removes or writes is the Sierra output it initialised before
  the first stage: neither the ABI file nor the assembly file of that source is touched.
\<close>

theorem failed_stage1_skips_abi_and_casm:
  assumes "compileCairo1File e args cfg binDirPath src statusSum w = (r, w')"
      and "trace w' = trace w @ es"
      and "observe sierraAttempt es = [(src, False)]"
  shows "r = Inr (statusSum + 1)
         \<and> observe casmAttempt es = []
         \<and> observe contentWrite es = []
         \<and> observe cacheUpdate es = []
         \<and> set (observe fileWrite es) = {cairo1OutputPath e cfg src}
         \<and> (cairo1AbiOutput e cfg src \<noteq> cairo1OutputPath e cfg src
              \<longrightarrow> cairo1AbiOutput e cfg src \<notin> set (observe fileWrite es))
         \<and> (cairo1CasmOutput e cfg src \<noteq> cairo1OutputPath e cfg src
              \<longrightarrow> cairo1CasmOutput e cfg src \<notin> set (observe fileWrite es))"
proof -
  obtain es1 where es1: "trace w' = trace w @ es1
           \<and> map fst (observe sierraAttempt es1) = [src]
           \<and> (case r of
                 Inr statusSum' \<Rightarrow>
                   statusSum' = statusSum + failedCount (observe sierraAttempt es1)
                                  + failedCount (observe casmAttempt es1)
                   \<and> map fst (observe casmAttempt es1) =
                       map (cairo1OutputPath e cfg) (succeeded (observe sierraAttempt es1))
                   \<and> observe cacheUpdate es1 = succeeded (observe sierraAttempt es1)
               | Inl err \<Rightarrow>
                   succeeded (observe sierraAttempt es1) = [src]
                   \<and> observe casmAttempt es1 = [] \<and> observe cacheUpdate es1 = []
                   \<and> (\<exists>tr p. readJsonAbi e tr p = Inl err \<and> freshSierra tr p))"
    using compileCairo1File_events [OF assms(1)] ..
  obtain es2 where es2: "trace w' = trace w @ es2
           \<and> (succeeded (observe sierraAttempt es2) = [] \<longrightarrow>
                 set (observe fileWrite es2) = {cairo1OutputPath e cfg src}
                 \<and> observe contentWrite es2 = [])
           \<and> (\<forall>pc \<in> set (observe contentWrite es2).
                 fst pc = cairo1AbiOutput e cfg src
                 \<and> (\<exists>tr abi. readJsonAbi e tr (cairo1OutputPath e cfg src) = Inr abi
                       \<and> snd pc = abiFileContent e abi))"
    using compileCairo1File_writes [OF assms(1)] ..
  from es1 es2 assms(2) have same: "es1 = es" "es2 = es"
    by simp_all
  from es1 assms(3) have "r = Inr (statusSum + 1) \<and> observe casmAttempt es = []
      \<and> observe cacheUpdate es = []"
    unfolding same by (cases r) simp_all
  moreover from es2 assms(3)
  have "set (observe fileWrite es) = {cairo1OutputPath e cfg src} \<and> observe contentWrite es = []"
    unfolding same by simp
  ultimately show ?thesis by simp
qed

theorem failed_stage1_skips_abi_and_casm_witness:
  "observe sierraAttempt
      (trace (snd (compileCairo1File sampleEnv sampleArgs sampleConfig None
                     ''/p/contracts/bad.cairo'' 0 sampleWorld)))
     = [(''/p/contracts/bad.cairo'', False)]
   \<and> fst (compileCairo1File sampleEnv sampleArgs sampleConfig None
             ''/p/contracts/bad.cairo'' 0 sampleWorld) = Inr 1
   \<and> set (observe fileWrite
       (trace (snd (compileCairo1File sampleEnv sampleArgs sampleConfig None
                      ''/p/contracts/bad.cairo'' 0 sampleWorld))))
       = {''/p/starknet-artifacts/contracts/bad.cairo/bad.json''}
   \<and> ''/p/starknet-artifacts/contracts/bad.cairo/bad_abi.json''
       \<notin> set (observe fileWrite
       (trace (snd (compileCairo1File sampleEnv sampleArgs sampleConfig None
                      ''/p/contracts/bad.cairo'' 0 sampleWorld))))
   \<and> ''/p/starknet-artifacts/contracts/bad.cairo/bad.casm''
       \<notin> set (observe fileWrite
       (trace (snd (compileCairo1File sampleEnv sampleArgs sampleConfig None
                      ''/p/contracts/bad.cairo'' 0 sampleWorld))))"
proof -
  let ?run = "compileCairo1File sampleEnv sampleArgs sampleConfig None
                ''/p/contracts/bad.cairo'' 0 sampleWorld"
  have run: "?run = (fst ?run, snd ?run)"
    by simp
  have tr: "trace (snd ?run) = trace sampleWorld @ trace (snd ?run)"
    by (simp add: sampleWorld_def)
  have failed: "observe sierraAttempt (trace (snd ?run)) = [(''/p/contracts/bad.cairo'', False)]"
    by (simp add: sample_bad_file) (simp add: sampleWorld_def)
  show ?thesis
    using failed_stage1_skips_abi_and_casm [OF run tr failed] failed
    by (simp add: sample_paths)
qed

text \<open>
  C9, as the code has it. When the first stage of the two-stage loop body succeeded, the
  pass goes on to read the \<^verbatim>\<open>abi\<close> member of the Sierra output it has just
  produced, having written no content so far. If that read fails the pass throws the error
  of the read and nothing is written; otherwise the pass returns normally and writes, to the
  ABI path of the source and nowhere else, the text of that member. The same holds for a
  contract entry of a Scarb build report that names a Sierra file, once that file was copied:
  the member is read from Scarb's Sierra file and its text is written to the ABI path of the
  entry, and if the read fails the copy throws with nothing written. The text written is the
  rendering of \<^verbatim>\<open>JSON.stringify\<close> with no indentation argument followed by one
  line feed. That rendering contains no line feed as long as the rendering of a number has
  none, so the ABI file is a single compact line with a trailing newline, not a
  pretty-printed document.
\<close>

theorem abi_written_on_one_line:
  "(compileCairo1File e args cfg binDirPath src statusSum w = (r, w')
      \<and> trace w' = trace w @ es
      \<and> observe sierraAttempt es = [(src, True)]
      \<longrightarrow> (\<exists>pre. observe contentWrite pre = [] \<and> observe sierraAttempt pre = [(src, True)]
             \<and> (case readJsonAbi e (trace w @ pre) (cairo1OutputPath e cfg src) of
                   Inl err \<Rightarrow> r = Inl err \<and> es = pre
                 | Inr abi \<Rightarrow>
                     (\<exists>statusSum'. r = Inr statusSum')
                     \<and> (\<exists>post. es = pre @ WriteFile (cairo1AbiOutput e cfg src)
                                              (abiFileContent e abi) # post
                           \<and> observe contentWrite post = []))))
   \<and> (copyContractEntry e artifactDirPath scarbArtifactDirPath contractEntry w = (r2, w2)
        \<and> trace w2 = trace w @ es2
        \<and> truthyString (ce_artifacts_sierra contractEntry) = Some sierra
        \<and> observe fileCopy es2 \<noteq> []
      \<longrightarrow> (\<exists>pre. observe contentWrite pre = []
             \<and> observe fileCopy pre = [(path_join e scarbArtifactDirPath sierra,
                                         scarbSierraOutput e artifactDirPath contractEntry)]
             \<and> (case readJsonAbi e (trace w @ pre) (path_join e scarbArtifactDirPath sierra) of
                   Inl err \<Rightarrow> r2 = Inl err \<and> es2 = pre
                 | Inr abi \<Rightarrow>
                     (\<exists>post. es2 = pre @ WriteFile (scarbAbiOutput e artifactDirPath contractEntry)
                                               (abiFileContent e abi) # post
                           \<and> observe contentWrite post = []))))
   \<and> abiFileContent e abi =
       (case abi of None \<Rightarrow> ''undefined'' | Some j \<Rightarrow> JSON_stringify e j) @ [CHR 0x0A]
   \<and> ((\<forall>num. CHR 0x0A \<notin> set (numberToString e num))
        \<longrightarrow> CHR 0x0A \<notin> set (case abi of None \<Rightarrow> ''undefined''
                                 | Some j \<Rightarrow> JSON_stringify e j))"
proof (intro conjI impI)
  assume run: "compileCairo1File e args cfg binDirPath src statusSum w = (r, w')
      \<and> trace w' = trace w @ es
      \<and> observe sierraAttempt es = [(src, True)]"
  show "\<exists>pre. observe contentWrite pre = [] \<and> observe sierraAttempt pre = [(src, True)]
             \<and> (case readJsonAbi e (trace w @ pre) (cairo1OutputPath e cfg src) of
                   Inl err \<Rightarrow> r = Inl err \<and> es = pre
                 | Inr abi \<Rightarrow>
                     (\<exists>statusSum'. r = Inr statusSum')
                     \<and> (\<exists>post. es = pre @ WriteFile (cairo1AbiOutput e cfg src)
                                              (abiFileContent e abi) # post
                           \<and> observe contentWrite post = []))"
    by (rule compileCairo1File_abi_written [OF run [THEN conjunct1]
          run [THEN conjunct2, THEN conjunct1] run [THEN conjunct2, THEN conjunct2]])
next
  assume copy: "copyContractEntry e artifactDirPath scarbArtifactDirPath contractEntry w
          = (r2, w2)
        \<and> trace w2 = trace w @ es2
        \<and> truthyString (ce_artifacts_sierra contractEntry) = Some sierra
        \<and> observe fileCopy es2 \<noteq> []"
  show "\<exists>pre. observe contentWrite pre = []
             \<and> observe fileCopy pre = [(path_join e scarbArtifactDirPath sierra,
                                         scarbSierraOutput e artifactDirPath contractEntry)]
             \<and> (case readJsonAbi e (trace w @ pre) (path_join e scarbArtifactDirPath sierra) of
                   Inl err \<Rightarrow> r2 = Inl err \<and> es2 = pre
                 | Inr abi \<Rightarrow>
                     (\<exists>post. es2 = pre @ WriteFile (scarbAbiOutput e artifactDirPath contractEntry)
                                               (abiFileContent e abi) # post
                           \<and> observe contentWrite post = []))"
    by (rule copyContractEntry_abi_written [OF copy [THEN conjunct1]
          copy [THEN conjunct2, THEN conjunct1]
          copy [THEN conjunct2, THEN conjunct2, THEN conjunct1]
          copy [THEN conjunct2, THEN conjunct2, THEN conjunct2]])
next
  show "abiFileContent e abi =
       (case abi of None \<Rightarrow> ''undefined'' | Some j \<Rightarrow> JSON_stringify e j) @ [CHR 0x0A]"
    by (cases abi) (simp_all add: abiFileContent_def)
next
  assume "\<forall>num. CHR 0x0A \<notin> set (numberToString e num)"
  then show "CHR 0x0A \<notin> set (case abi of None \<Rightarrow> ''undefined''
                                 | Some j \<Rightarrow> JSON_stringify e j)"
    using abiFileContent_one_line [of e abi] by simp
qed

theorem abi_written_on_one_line_witness:
  "observe sierraAttempt
      (trace (snd (compileCairo1File sampleEnv sampleArgs sampleConfig None
                     ''/p/contracts/good.cairo'' 0 sampleWorld)))
     = [(''/p/contracts/good.cairo'', True)]
   \<and> (\<exists>pre post.
         trace (snd (compileCairo1File sampleEnv sampleArgs sampleConfig None
                       ''/p/contracts/good.cairo'' 0 sampleWorld))
           = pre @ WriteFile ''/p/starknet-artifacts/contracts/good.cairo/good_abi.json''
                     (''[{\"type\":\"function\",\"name\":\"get\",\"inputs\":[]}]'' @ [CHR 0x0A]) # post
         \<and> readJsonAbi sampleEnv pre ''/p/starknet-artifacts/contracts/good.cairo/good.json''
             = Inr (Some sampleAbi)
         \<and> observe contentWrite pre = [] \<and> observe contentWrite post = [])
   \<and> observe fileCopy
      (trace (snd (copyContractEntry sampleEnv ''/p/starknet-artifacts/contracts/a''
                     ''/p/starknet-artifacts/contracts/a/dev'' sampleEntry sampleWorld)))
     = [(''/p/starknet-artifacts/contracts/a/dev/a_Counter.contract_class.json'',
         ''/p/starknet-artifacts/contracts/a/a_Counter.cairo/a_Counter.json''),
        (''/p/starknet-artifacts/contracts/a/dev/a_Counter.compiled_contract_class.json'',
         ''/p/starknet-artifacts/contracts/a/a_Counter.cairo/a_Counter.casm'')]
   \<and> (\<exists>pre post.
         trace (snd (copyContractEntry sampleEnv ''/p/starknet-artifacts/contracts/a''
                       ''/p/starknet-artifacts/contracts/a/dev'' sampleEntry sampleWorld))
           = pre @ WriteFile
                     ''/p/starknet-artifacts/contracts/a/a_Counter.cairo/a_Counter_abi.json''
                     (''[{\"type\":\"function\",\"name\":\"get\",\"inputs\":[]}]'' @ [CHR 0x0A]) # post
         \<and> readJsonAbi sampleEnv pre
               ''/p/starknet-artifacts/contracts/a/dev/a_Counter.contract_class.json''
             = Inr (Some sampleAbi)
         \<and> observe contentWrite pre = [] \<and> observe contentWrite post = [])
   \<and> abiFileContent sampleEnv (Some sampleAbi) = JSON_stringify sampleEnv sampleAbi @ [CHR 0x0A]
   \<and> CHR 0x0A \<notin> set (JSON_stringify sampleEnv sampleAbi)"
proof -
  let ?good = "''/p/contracts/good.cairo''"
  let ?adp = "''/p/starknet-artifacts/contracts/a''"
  let ?sadp = "''/p/starknet-artifacts/contracts/a/dev''"
  let ?sierra = "''a_Counter.contract_class.json''"
  let ?run = "compileCairo1File sampleEnv sampleArgs sampleConfig None ?good 0 sampleWorld"
  let ?copy = "copyContractEntry sampleEnv ?adp ?sadp sampleEntry sampleWorld"
  have nil: "trace sampleWorld = []"
    by (simp add: sampleWorld_def)
  have attempts: "observe sierraAttempt (trace (snd ?run)) = [(?good, True)]"
    by (simp add: sample_good_file) (simp add: sampleWorld_def)
  have copies: "observe fileCopy (trace (snd ?copy))
     = [(''/p/starknet-artifacts/contracts/a/dev/a_Counter.contract_class.json'',
         ''/p/starknet-artifacts/contracts/a/a_Counter.cairo/a_Counter.json''),
        (''/p/starknet-artifacts/contracts/a/dev/a_Counter.compiled_contract_class.json'',
         ''/p/starknet-artifacts/contracts/a/a_Counter.cairo/a_Counter.casm'')]"
    by (simp add: sample_entry_copy) (simp add: sampleWorld_def)
  have run: "?run = (fst ?run, snd ?run)
      \<and> trace (snd ?run) = trace sampleWorld @ trace (snd ?run)
      \<and> observe sierraAttempt (trace (snd ?run)) = [(?good, True)]"
    using attempts by (simp add: nil)
  have copy: "?copy = (fst ?copy, snd ?copy)
      \<and> trace (snd ?copy) = trace sampleWorld @ trace (snd ?copy)
      \<and> truthyString (ce_artifacts_sierra sampleEntry) = Some ?sierra
      \<and> observe fileCopy (trace (snd ?copy)) \<noteq> []"
    using copies by (simp add: nil sampleEntry_def truthyString_def)
  note inst = abi_written_on_one_line [where e = sampleEnv and args = sampleArgs
      and cfg = sampleConfig and binDirPath = None and src = ?good and statusSum = 0
      and w = sampleWorld and r = "fst ?run" and w' = "snd ?run" and es = "trace (snd ?run)"
      and artifactDirPath = ?adp and scarbArtifactDirPath = ?sadp
      and contractEntry = sampleEntry and ?r2.0 = "fst ?copy" and ?w2.0 = "snd ?copy"
      and ?es2.0 = "trace (snd ?copy)" and sierra = ?sierra and abi = "Some sampleAbi"]
  note first = inst [THEN conjunct1, THEN mp, OF run,
      unfolded nil append_Nil sample_paths sampleEnv_sel]
  note second = inst [THEN conjunct2, THEN conjunct1, THEN mp, OF copy,
      unfolded nil append_Nil sample_paths sampleEnv_sel]
  note third = inst [THEN conjunct2, THEN conjunct2]
  let ?out = "''/p/starknet-artifacts/contracts/good.cairo/good.json''"
  let ?scarbOut = "''/p/starknet-artifacts/contracts/a/dev/a_Counter.contract_class.json''"
  from first obtain pre where pre:
    "observe contentWrite pre = []"
    "case sampleRead pre ?out of
       Inl err \<Rightarrow> fst ?run = Inl err \<and> trace (snd ?run) = pre
     | Inr abi \<Rightarrow>
         (\<exists>statusSum'. fst ?run = Inr statusSum')
         \<and> (\<exists>post. trace (snd ?run)
                      = pre @ WriteFile ''/p/starknet-artifacts/contracts/good.cairo/good_abi.json''
                                (abiFileContent sampleEnv abi) # post
               \<and> observe contentWrite post = [])"
    by auto
  have read1: "sampleRead pre ?out = Inr (Some sampleAbi)"
  proof (cases "sampleRead pre ?out")
    case (Inl err)
    with pre(2) have "sampleRead (trace (snd ?run)) ?out = Inl err"
      by simp
    then show ?thesis
      by (simp add: sample_good_file) (simp add: sampleWorld_def sampleRead_def)
  next
    case (Inr abi)
    then show ?thesis
      using sample_read [of pre ?out abi] by simp
  qed
  with pre(2) obtain post where post:
    "trace (snd ?run) = pre @ WriteFile ''/p/starknet-artifacts/contracts/good.cairo/good_abi.json''
                                (''[{\"type\":\"function\",\"name\":\"get\",\"inputs\":[]}]'' @ [CHR 0x0A]) # post"
    "observe contentWrite post = []"
    by (auto simp add: sample_abi_text)
  from pre(1) read1 post have a: "\<exists>pre post.
         trace (snd ?run)
           = pre @ WriteFile ''/p/starknet-artifacts/contracts/good.cairo/good_abi.json''
                     (''[{\"type\":\"function\",\"name\":\"get\",\"inputs\":[]}]'' @ [CHR 0x0A]) # post
         \<and> readJsonAbi sampleEnv pre ?out = Inr (Some sampleAbi)
         \<and> observe contentWrite pre = [] \<and> observe contentWrite post = []"
    by (intro exI [of _ pre] exI [of _ post]) simp
  from second obtain pre2 where pre2:
    "observe contentWrite pre2 = []"
    "case sampleRead pre2 ?scarbOut of
       Inl err \<Rightarrow> fst ?copy = Inl err \<and> trace (snd ?copy) = pre2
     | Inr abi \<Rightarrow>
         (\<exists>post. trace (snd ?copy)
                      = pre2 @ WriteFile
                          ''/p/starknet-artifacts/contracts/a/a_Counter.cairo/a_Counter_abi.json''
                          (abiFileContent sampleEnv abi) # post
               \<and> observe contentWrite post = [])"
    by auto
  have read2: "sampleRead pre2 ?scarbOut = Inr (Some sampleAbi)"
  proof (cases "sampleRead pre2 ?scarbOut")
    case (Inl err)
    with pre2(2) have "sampleRead (trace (snd ?copy)) ?scarbOut = Inl err"
      by simp
    then show ?thesis
      by (simp add: sample_entry_copy) (simp add: sampleWorld_def sampleRead_def)
  next
    case (Inr abi)
    then show ?thesis
      using sample_read [of pre2 ?scarbOut abi] by simp
  qed
  with pre2(2) obtain post2 where post2:
    "trace (snd ?copy)
       = pre2 @ WriteFile ''/p/starknet-artifacts/contracts/a/a_Counter.cairo/a_Counter_abi.json''
                  (''[{\"type\":\"function\",\"name\":\"get\",\"inputs\":[]}]'' @ [CHR 0x0A]) # post2"
    "observe contentWrite post2 = []"
    by (auto simp add: sample_abi_text)
  from pre2(1) read2 post2 have b: "\<exists>pre post.
         trace (snd ?copy)
           = pre @ WriteFile
                     ''/p/starknet-artifacts/contracts/a/a_Counter.cairo/a_Counter_abi.json''
                     (''[{\"type\":\"function\",\"name\":\"get\",\"inputs\":[]}]'' @ [CHR 0x0A]) # post
         \<and> readJsonAbi sampleEnv pre ?scarbOut = Inr (Some sampleAbi)
         \<and> observe contentWrite pre = [] \<and> observe contentWrite post = []"
    by (intro exI [of _ pre2] exI [of _ post2]) simp
  from third have c: "abiFileContent sampleEnv (Some sampleAbi)
       = JSON_stringify sampleEnv sampleAbi @ [CHR 0x0A]
     \<and> CHR 0x0A \<notin> set (JSON_stringify sampleEnv sampleAbi)"
    by simp
  from attempts a copies b c show ?thesis
    by (intro conjI) simp_all
qed

text \<open>
  The claim as stated fails: for the sample ABI the file written holds one compact line,
  which is not the pretty-printed rendering of the same value.
\<close>

theorem abi_not_pretty_printed_counterexample:
  "observe contentWrite
      (trace (snd (compileCairo1File sampleEnv sampleArgs sampleConfig None
                     ''/p/contracts/good.cairo'' 0 sampleWorld)))
     = [(''/p/starknet-artifacts/contracts/good.cairo/good_abi.json'',
         ''[{\"type\":\"function\",\"name\":\"get\",\"inputs\":[]}]'' @ [CHR 0x0A])]
   \<and> trace (snd (compileCairo1File sampleEnv sampleArgs sampleConfig None
                     ''/p/contracts/good.cairo'' 0 sampleWorld)) ! 8
       = WriteFile ''/p/starknet-artifacts/contracts/good.cairo/good_abi.json''
           (''[{\"type\":\"function\",\"name\":\"get\",\"inputs\":[]}]'' @ [CHR 0x0A])
   \<and> readJsonAbi sampleEnv
        (take 8 (trace (snd (compileCairo1File sampleEnv sampleArgs sampleConfig None
                               ''/p/contracts/good.cairo'' 0 sampleWorld))))
        ''/p/starknet-artifacts/contracts/good.cairo/good.json''
       = Inr (Some sampleAbi)
   \<and> JSON_stringify_pretty sampleEnv 0 sampleAbi @ [CHR 0x0A]
       = ''['' @ [CHR 0x0A]
         @ ''  {'' @ [CHR 0x0A]
         @ ''    \"type\": \"function\",'' @ [CHR 0x0A]
         @ ''    \"name\": \"get\",'' @ [CHR 0x0A]
         @ ''    \"inputs\": []'' @ [CHR 0x0A]
         @ ''  }'' @ [CHR 0x0A]
         @ '']'' @ [CHR 0x0A]
   \<and> ''[{\"type\":\"function\",\"name\":\"get\",\"inputs\":[]}]'' @ [CHR 0x0A]
       \<noteq> JSON_stringify_pretty sampleEnv 0 sampleAbi @ [CHR 0x0A]"
  by (simp add: sample_good_file)
     (simp add: sampleWorld_def sampleRead_def sampleAbi_def indentOf_def quoteJSONString_def
        quoteJSONChar_def numeral_2_eq_2 numeral_3_eq_3 eval_nat_numeral)

section \<open>Batches\<close>



lemma sample_legacy_run:
  "observe legacyAttempt
     (trace (snd (starknetDeprecatedCompileAction sampleEnv sampleArgs sampleConfig sampleWorld)))
     = [(''/p/contracts/good.cairo'', True), (''/p/contracts/bad.cairo'', False),
        (''/p/contracts/fine.cairo'', True)]"
  "observe cacheUpdate
     (trace (snd (starknetDeprecatedCompileAction sampleEnv sampleArgs sampleConfig sampleWorld)))
     = [''/p/contracts/good.cairo'', ''/p/contracts/bad.cairo'', ''/p/contracts/fine.cairo'']"
  "fst (starknetDeprecatedCompileAction sampleEnv sampleArgs sampleConfig sampleWorld)
     = Inl (StarknetPluginError ''Failed compilation of 1 contract.'')"
  by code_simp+















text \<open>
  C2, as the code has it. In the legacy action \<^verbatim>\<open>updateCache\<close> is called for every file
  for which the compiler was invoked, before the status of the invocation is looked at. In
  the two-stage action it is called only for files whose first stage reported success,
  whatever the second stage reports, and for each of them unless reading the Sierra output
  back throws, which ends the action at that file.
\<close>

theorem cache_updated_after_compilation:
  "(\<exists>es. trace (snd (starknetDeprecatedCompileAction e args cfg w)) = trace w @ es
        \<and> observe cacheUpdate es = map fst (observe legacyAttempt es))
   \<and> (\<exists>es rest. trace (snd (starknetCompileCairo1Action e args cfg w)) = trace w @ es
        \<and> succeeded (observe sierraAttempt es) = observe cacheUpdate es @ rest
        \<and> (rest = []
            \<or> (\<exists>f err tr p. rest = [f]
                  \<and> fst (starknetCompileCairo1Action e args cfg w) = Inl err
                  \<and> readJsonAbi e tr p = Inl err)))"
proof
  obtain r w' where run:
    "deprecatedCompilePaths e args cfg (cairoPathOf e args cfg) (sourcesPathsOf args cfg) 0 w
       = (r, w')"
    by (cases "deprecatedCompilePaths e args cfg (cairoPathOf e args cfg)
                 (sourcesPathsOf args cfg) 0 w")
  then have world: "snd (starknetDeprecatedCompileAction e args cfg w) = w'"
    by (simp add: starknetDeprecatedCompileAction_def split: sum.splits)
  from deprecatedCompilePaths_events [OF run, of "\<lambda>p. []"]
  show "\<exists>es. trace (snd (starknetDeprecatedCompileAction e args cfg w)) = trace w @ es
        \<and> observe cacheUpdate es = map fst (observe legacyAttempt es)"
    unfolding world by blast
next
  obtain r w' where run:
    "compileCairo1Paths e args cfg (getCompilerBinDir args cfg) (sourcesPathsOf args cfg) 0 w
       = (r, w')"
    by (cases "compileCairo1Paths e args cfg (getCompilerBinDir args cfg)
                 (sourcesPathsOf args cfg) 0 w")
  then have world: "snd (starknetCompileCairo1Action e args cfg w) = w'"
    and result: "\<And>err. r = Inl err \<Longrightarrow> fst (starknetCompileCairo1Action e args cfg w) = Inl err"
    by (simp_all add: starknetCompileCairo1Action_def split: sum.splits)
  obtain es where es: "trace w' = trace w @ es"
    and cases: "case r of
           Inr statusSum' \<Rightarrow>
             statusSum' = 0 + failedCount (observe sierraAttempt es)
                            + failedCount (observe casmAttempt es)
             \<and> map fst (observe casmAttempt es) =
                 map (cairo1OutputPath e cfg) (succeeded (observe sierraAttempt es))
             \<and> observe cacheUpdate es = succeeded (observe sierraAttempt es)
         | Inl err \<Rightarrow>
             (observe cacheUpdate es = succeeded (observe sierraAttempt es)
              \<and> (\<exists>tr p. p \<in> set (sourcesPathsOf args cfg)
                    \<and> \<not> existsSync e tr (adaptPath e (paths_root cfg) p)))
             \<or> ((\<exists>f. succeeded (observe sierraAttempt es) = observe cacheUpdate es @ [f])
                 \<and> (\<exists>tr p. readJsonAbi e tr p = Inl err \<and> freshSierra tr p))"
    using compileCairo1Paths_events [OF run, of "\<lambda>p. []"] by blast
  have "\<exists>rest. succeeded (observe sierraAttempt es) = observe cacheUpdate es @ rest
        \<and> (rest = []
            \<or> (\<exists>f err tr p. rest = [f]
                  \<and> fst (starknetCompileCairo1Action e args cfg w) = Inl err
                  \<and> readJsonAbi e tr p = Inl err))"
  proof (cases r)
    case (Inr statusSum')
    with cases show ?thesis by simp
  next
    case (Inl err)
    with cases result [OF Inl] show ?thesis by auto
  qed
  with es show "\<exists>es rest. trace (snd (starknetCompileCairo1Action e args cfg w)) = trace w @ es
        \<and> succeeded (observe sierraAttempt es) = observe cacheUpdate es @ rest
        \<and> (rest = []
            \<or> (\<exists>f err tr p. rest = [f]
                  \<and> fst (starknetCompileCairo1Action e args cfg w) = Inl err
                  \<and> readJsonAbi e tr p = Inl err))"
    unfolding world by blast
qed

theorem cache_updated_after_compilation_witness:
  "(\<exists>es. trace (snd (starknetDeprecatedCompileAction sampleEnv sampleArgs sampleConfig sampleWorld))
            = trace sampleWorld @ es
        \<and> observe cacheUpdate es = map fst (observe legacyAttempt es))
   \<and> (\<exists>es rest. trace (snd (starknetCompileCairo1Action sampleEnv sampleArgs sampleConfig sampleWorld))
            = trace sampleWorld @ es
        \<and> succeeded (observe sierraAttempt es) = observe cacheUpdate es @ rest
        \<and> (rest = []
            \<or> (\<exists>f err tr p. rest = [f]
                  \<and> fst (starknetCompileCairo1Action sampleEnv sampleArgs sampleConfig sampleWorld)
                      = Inl err
                  \<and> readJsonAbi sampleEnv tr p = Inl err)))"
  by (rule cache_updated_after_compilation)

text \<open>
  The claim as stated fails: in the sample project the legacy compiler reports failure for
  \<^verbatim>\<open>bad.cairo\<close>, and \<^verbatim>\<open>updateCache\<close> is called for it all the same.
\<close>

theorem cache_updated_despite_failure_counterexample:
  "observe legacyAttempt
     (trace (snd (starknetDeprecatedCompileAction sampleEnv sampleArgs sampleConfig sampleWorld)))
     = [(''/p/contracts/good.cairo'', True), (''/p/contracts/bad.cairo'', False),
        (''/p/contracts/fine.cairo'', True)]
   \<and> observe cacheUpdate
     (trace (snd (starknetDeprecatedCompileAction sampleEnv sampleArgs sampleConfig sampleWorld)))
     = [''/p/contracts/good.cairo'', ''/p/contracts/bad.cairo'', ''/p/contracts/fine.cairo'']"
  by (simp add: sample_legacy_run)

end
